theory Spec2Isabelle
  imports Complex_Main
begin

section \<open>Values, events and errors\<close>

text \<open>
  The behaviour manager of \<^verbatim>\<open>src/backend/behavioral/behavior_manager.py\<close> works on
  loosely typed dictionaries that arrive as JSON. A dictionary value is modelled as a JSON
  scalar: \<^verbatim>\<open>None\<close>, a number (Python's \<^verbatim>\<open>int\<close>, \<^verbatim>\<open>float\<close> and \<^verbatim>\<open>bool\<close>, read as
  a real number, so that \<^verbatim>\<open>==\<close> is equality) or a string. Floating point rounding is not
  modelled. A dictionary is a map from keys to values.
\<close>

datatype pyval = PNone | PNum real | PStr string

text \<open>Python's truth test of a value: \<^verbatim>\<open>None\<close>, zero and the empty string are false.\<close>

fun truthy :: "pyval \<Rightarrow> bool" where
  "truthy PNone = False"
| "truthy (PNum x) = (x \<noteq> 0)"
| "truthy (PStr s) = (s \<noteq> [])"

type_synonym pydict = "string \<rightharpoonup> pyval"
type_synonym event = pydict

datatype py_error = TypeError | ZeroDivisionError | KeyError

text \<open>
  The clock. \<^verbatim>\<open>datetime.now().isoformat()\<close> and \<^verbatim>\<open>time.time()\<close> are read several
  times within one call; \<open>now_iso c k\<close> and \<open>time_time c k\<close> are the readings at the
  \<open>k\<close>-th reading place of the call, for an arbitrary clock \<open>c\<close>.
\<close>

record clock =
  now_iso :: "nat \<Rightarrow> string"
  time_time :: "nat \<Rightarrow> real"

section \<open>The outlier-detection backend\<close>

text \<open>
  \<^verbatim>\<open>IsolationForest\<close> and \<^verbatim>\<open>StandardScaler\<close> are external. An estimator object is
  either fresh (\<open>Unfitted\<close>) or fitted on a training array; \<^verbatim>\<open>fit\<close> replaces its state
  wholesale. Using an unfitted estimator raises, which the callers catch. The truth test
  of a scaler object is true. The truth test of an \<^verbatim>\<open>IsolationForest\<close> goes through the
  \<^verbatim>\<open>__len__\<close> of scikit-learn's ensembles, which reads \<^verbatim>\<open>estimators_\<close>: it raises
  \<^verbatim>\<open>AttributeError\<close> on an unfitted model and is true on a fitted one. What a fitted
  estimator computes is left open: \<open>transform\<close>, \<open>predict\<close> and \<open>decision_function\<close> are
  arbitrary functions of the training array and the input row. \<open>SKLEARN_AVAILABLE\<close> and
  \<open>np_available\<close> (\<^verbatim>\<open>np is not None\<close>) are the results of the guarded imports.
\<close>

datatype estimator = Unfitted | Fitted "real list list"

record backend =
  SKLEARN_AVAILABLE :: bool
  np_available :: bool
  transform :: "real list list \<Rightarrow> real list \<Rightarrow> real list"
  predict :: "real list list \<Rightarrow> real list \<Rightarrow> int"
  decision_function :: "real list list \<Rightarrow> real list \<Rightarrow> real"

section \<open>Profiles and the manager's state\<close>

record keystroke_patterns =
  avg_typing_speed :: real
  keystroke_intervals :: "real list"
  error_rate :: real
  common_sequences :: "pyval list"

record mouse_patterns =
  avg_movement_speed :: real
  click_patterns :: "int list"
  scroll_patterns :: "pyval list"
  movement_variance :: real

record profile =
  user_id :: string
  created_at :: string
  keystroke_pats :: keystroke_patterns
  mouse_pats :: mouse_patterns
  device_patterns :: pydict
  baseline_established :: bool
  anomaly_threshold :: real

record manager =
  user_profiles :: "string \<rightharpoonup> profile"
  anomaly_models :: "string \<rightharpoonup> estimator option"
  scalers :: "string \<rightharpoonup> estimator option"
  behavior_buffer :: "string \<rightharpoonup> event list"

text \<open>\<^verbatim>\<open>self.buffer_size = 50\<close>, set in \<^verbatim>\<open>__init__\<close> and never assigned again.\<close>

definition buffer_size :: nat where
  "buffer_size = 50"

definition init_manager :: manager where
  "init_manager = \<lparr>user_profiles = Map.empty, anomaly_models = Map.empty,
     scalers = Map.empty, behavior_buffer = Map.empty\<rparr>"

text \<open>Python's \<^verbatim>\<open>xs[-n:]\<close> for a positive \<open>n\<close>: the last \<open>n\<close> elements.\<close>

definition last_n :: "nat \<Rightarrow> 'a list \<Rightarrow> 'a list" where
  "last_n n xs = drop (length xs - n) xs"

text \<open>\<^verbatim>\<open>self.behavior_buffer.get(user_id, [])\<close>.\<close>

definition buffer_of :: "manager \<Rightarrow> string \<Rightarrow> event list" where
  "buffer_of s uid = (case behavior_buffer s uid of None \<Rightarrow> [] | Some b \<Rightarrow> b)"

subsection \<open>\<^verbatim>\<open>create_user_profile\<close>\<close>

definition new_profile :: "clock \<Rightarrow> string \<Rightarrow> profile" where
  "new_profile clk uid =
     \<lparr>user_id = uid,
      created_at = now_iso clk 0,
      keystroke_pats = \<lparr>avg_typing_speed = 0, keystroke_intervals = [],
                        error_rate = 0, common_sequences = []\<rparr>,
      mouse_pats = \<lparr>avg_movement_speed = 0, click_patterns = [],
                    scroll_patterns = [], movement_variance = 0\<rparr>,
      device_patterns = [''screen_resolution'' \<mapsto> PNone, ''browser_info'' \<mapsto> PNone,
                         ''os_info'' \<mapsto> PNone, ''ip_address'' \<mapsto> PNone],
      baseline_established = False,
      anomaly_threshold = 0.15\<rparr>"

definition create_user_profile :: "backend \<Rightarrow> clock \<Rightarrow> string \<Rightarrow> manager \<Rightarrow> profile \<times> manager" where
  "create_user_profile env clk uid s =
     (let p = new_profile clk uid;
          est = (if SKLEARN_AVAILABLE env then Some Unfitted else None)
      in (p, s\<lparr>user_profiles := (user_profiles s)(uid \<mapsto> p),
               behavior_buffer := (behavior_buffer s)(uid \<mapsto> []),
               anomaly_models := (anomaly_models s)(uid \<mapsto> est),
               scalers := (scalers s)(uid \<mapsto> est)\<rparr>))"

text \<open>
  The opening of every \<^verbatim>\<open>process_*\<close> method: create the profile when the user has none,
  then read \<^verbatim>\<open>self.user_profiles[user_id]\<close>.
\<close>

definition ensure_profile :: "backend \<Rightarrow> clock \<Rightarrow> string \<Rightarrow> manager \<Rightarrow> profile \<times> manager" where
  "ensure_profile env clk uid s =
     (case user_profiles s uid of
        None \<Rightarrow> create_user_profile env clk uid s
      | Some p \<Rightarrow> (p, s))"

section \<open>Feature extraction\<close>

record keystroke_features =
  typing_speed :: real
  kf_intervals :: "real list"
  error_count :: real
  special_key_usage :: real

record mouse_features =
  movement_speed :: real
  click_count :: int
  scroll_count :: int
  mf_movement_variance :: real

fun py_sub :: "pyval \<Rightarrow> pyval \<Rightarrow> py_error + real" where
  "py_sub (PNum a) (PNum b) = Inr (a - b)"
| "py_sub _ _ = Inl TypeError"

text \<open>
  \<^verbatim>\<open>[keydown_times[i] - keydown_times[i-1] for i in range(1, len(keydown_times))]\<close>:
  the first subtraction that fails raises.
\<close>

fun intervals_of :: "pyval list \<Rightarrow> py_error + real list" where
  "intervals_of (a # b # rest) =
     (case py_sub b a of
        Inl e \<Rightarrow> Inl e
      | Inr d \<Rightarrow> (case intervals_of (b # rest) of
                    Inl e \<Rightarrow> Inl e
                  | Inr ds \<Rightarrow> Inr (d # ds)))"
| "intervals_of _ = Inr []"

definition keydown_times :: "clock \<Rightarrow> event list \<Rightarrow> pyval list" where
  "keydown_times clk events =
     map (\<lambda>(i, e). case e ''timestamp'' of Some v \<Rightarrow> v | None \<Rightarrow> PNum (time_time clk i))
       (filter (\<lambda>(i, e). e ''type'' = Some (PStr ''keydown'')) (enumerate 0 events))"

text \<open>The result is \<open>None\<close> for the empty dictionary \<^verbatim>\<open>{}\<close> returned on an empty batch.\<close>

definition extract_keystroke_features ::
  "clock \<Rightarrow> event list \<Rightarrow> py_error + keystroke_features option" where
  "extract_keystroke_features clk events =
     (if events = [] then Inr None
      else
        let features = \<lparr>typing_speed = 0, kf_intervals = [], error_count = 0,
                         special_key_usage = 0\<rparr>;
            kts = keydown_times clk events
        in if length kts > 1 then
             (case intervals_of kts of
                Inl e \<Rightarrow> Inl e
              | Inr intervals \<Rightarrow>
                  let divisor = (case intervals of [] \<Rightarrow> 1 | x # xs \<Rightarrow> fold max xs x)
                  in if divisor = 0 then Inl ZeroDivisionError
                     else Inr (Some (features\<lparr>kf_intervals := intervals,
                            typing_speed := real (length events) / divisor\<rparr>)))
           else Inr (Some features))"

text \<open>The body of the counting loop of \<^verbatim>\<open>_extract_mouse_features\<close>.\<close>

definition count_event :: "event \<Rightarrow> mouse_features \<Rightarrow> mouse_features" where
  "count_event e f =
     (if e ''type'' = Some (PStr ''click'') then f\<lparr>click_count := click_count f + 1\<rparr>
      else if e ''type'' = Some (PStr ''scroll'') then f\<lparr>scroll_count := scroll_count f + 1\<rparr>
      else f)"

definition extract_mouse_features :: "event list \<Rightarrow> mouse_features option" where
  "extract_mouse_features events =
     (if events = [] then None
      else Some (fold count_event events
             \<lparr>movement_speed = 0, click_count = 0, scroll_count = 0,
              mf_movement_variance = 0\<rparr>))"

section \<open>Profile updates\<close>

text \<open>
  \<^verbatim>\<open>features.get(k)\<close> is \<^verbatim>\<open>None\<close> on the empty feature dictionary, so both updates do
  nothing there. A number is true when it is not zero, a list when it is not empty.
\<close>

definition update_keystroke_profile :: "profile \<Rightarrow> keystroke_features option \<Rightarrow> profile" where
  "update_keystroke_profile p features =
     (case features of
        None \<Rightarrow> p
      | Some f \<Rightarrow>
          let kp = keystroke_pats p;
              kp1 = (if typing_speed f \<noteq> 0 then
                       kp\<lparr>avg_typing_speed :=
                            (if avg_typing_speed kp \<noteq> 0
                             then (avg_typing_speed kp + typing_speed f) / 2
                             else typing_speed f)\<rparr>
                     else kp);
              kp2 = (if kf_intervals f \<noteq> [] then
                       (let ext = keystroke_intervals kp1 @ kf_intervals f
                        in kp1\<lparr>keystroke_intervals :=
                                 (if length ext > 1000 then last_n 1000 ext else ext)\<rparr>)
                     else kp1)
          in p\<lparr>keystroke_pats := kp2\<rparr>)"

definition update_mouse_profile :: "profile \<Rightarrow> mouse_features option \<Rightarrow> profile" where
  "update_mouse_profile p features =
     (case features of
        None \<Rightarrow> p
      | Some f \<Rightarrow>
          let mp = mouse_pats p;
              mp1 = (if movement_speed f \<noteq> 0 then
                       mp\<lparr>avg_movement_speed :=
                            (if avg_movement_speed mp \<noteq> 0
                             then (avg_movement_speed mp + movement_speed f) / 2
                             else movement_speed f)\<rparr>
                     else mp);
              mp2 = (if click_count f \<noteq> 0 then
                       (let ext = click_patterns mp1 @ [click_count f]
                        in mp1\<lparr>click_patterns :=
                                 (if length ext > 100 then last_n 100 ext else ext)\<rparr>)
                     else mp1)
          in p\<lparr>mouse_pats := mp2\<rparr>)"

section \<open>Scoring, sufficiency and training\<close>

text \<open>
  \<^verbatim>\<open>self.anomaly_models.get(user_id)\<close>: \<^verbatim>\<open>None\<close> when the user has no entry, or when the
  entry is \<^verbatim>\<open>None\<close>.
\<close>

definition dict_get :: "(string \<rightharpoonup> 'a option) \<Rightarrow> string \<Rightarrow> 'a option" where
  "dict_get m k = (case m k of None \<Rightarrow> None | Some v \<Rightarrow> v)"

text \<open>
  The estimator calls of both \<^verbatim>\<open>_detect_*\<close> methods, inside their \<^verbatim>\<open>try\<close>: the
  test \<^verbatim>\<open>not model\<close> on an unfitted model and the use of an unfitted scaler raise, and the
  \<^verbatim>\<open>except\<close> branch returns 0.0.
\<close>

definition detect_keystroke_anomalies ::
  "backend \<Rightarrow> manager \<Rightarrow> string \<Rightarrow> keystroke_features option \<Rightarrow> real" where
  "detect_keystroke_anomalies env s uid features =
     (if \<not> SKLEARN_AVAILABLE env then 0.1
      else
        (case (dict_get (anomaly_models s) uid, dict_get (scalers s) uid) of
           (Some model, Some scaler) \<Rightarrow>
             (let feature_vector =
                    (case features of
                       None \<Rightarrow> [0, 0, 0, 0]
                     | Some f \<Rightarrow> [typing_speed f, real (length (kf_intervals f)),
                                   error_count f, special_key_usage f])
              in case (scaler, model) of
                   (Fitted sd, Fitted md) \<Rightarrow>
                     (let feature_vector_scaled = transform env sd feature_vector;
                          prediction = predict env md feature_vector_scaled;
                          anomaly_score0 = (if prediction = 1 then 0.0 else 1.0 :: real);
                          decision_score = decision_function env md feature_vector_scaled
                      in max 0 (min 1 ((decision_score + 0.5) / 1.0)))
                 | _ \<Rightarrow> 0.0)
         | _ \<Rightarrow> 0.0))"

definition detect_mouse_anomalies ::
  "backend \<Rightarrow> manager \<Rightarrow> string \<Rightarrow> mouse_features option \<Rightarrow> real" where
  "detect_mouse_anomalies env s uid features =
     (if \<not> SKLEARN_AVAILABLE env then 0.1
      else
        (case (dict_get (anomaly_models s) uid, dict_get (scalers s) uid) of
           (Some model, Some scaler) \<Rightarrow>
             (let feature_vector =
                    (case features of
                       None \<Rightarrow> [0, 0, 0, 0]
                     | Some f \<Rightarrow> [movement_speed f, real_of_int (click_count f),
                                   real_of_int (scroll_count f), mf_movement_variance f])
              in case (scaler, model) of
                   (Fitted sd, Fitted md) \<Rightarrow>
                     (let feature_vector_scaled = transform env sd feature_vector;
                          prediction = predict env md feature_vector_scaled
                      in (if prediction = 1 then 0.0 else 1.0))
                 | _ \<Rightarrow> 0.0)
         | _ \<Rightarrow> 0.0))"

definition check_baseline_sufficient :: "profile \<Rightarrow> bool" where
  "check_baseline_sufficient p =
     (let sufficient_keystrokes = (length (keystroke_intervals (keystroke_pats p)) \<ge> 50);
          sufficient_mouse = (length (click_patterns (mouse_pats p)) \<ge> 20)
      in sufficient_keystrokes \<or> sufficient_mouse)"

definition training_data :: "profile \<Rightarrow> real list list" where
  "training_data p =
     (let kp = keystroke_pats p; mp = mouse_pats p;
          mean_clicks = (if click_patterns mp \<noteq> []
                         then real_of_int (sum_list (click_patterns mp))
                              / real (length (click_patterns mp))
                         else 0)
      in (if avg_typing_speed kp > 0
          then [[avg_typing_speed kp, real (length (keystroke_intervals kp)), error_rate kp, 0]]
          else [])
         @ (if avg_movement_speed mp > 0
            then [[avg_movement_speed mp, mean_clicks, 0, movement_variance mp]]
            else []))"

text \<open>
  \<^verbatim>\<open>_train_user_model\<close>. \<^verbatim>\<open>self.scalers[user_id]\<close> and \<^verbatim>\<open>self.anomaly_models[user_id]\<close>
  raise \<^verbatim>\<open>KeyError\<close> on a missing entry, and the test \<^verbatim>\<open>if model:\<close> raises
  \<^verbatim>\<open>AttributeError\<close> on an unfitted model. The method's own \<^verbatim>\<open>except\<close> swallows both:
  what was fitted before stays fitted, and \<^verbatim>\<open>model.fit\<close> is reached only for a model
  that is fitted already.
\<close>

definition train_user_model :: "backend \<Rightarrow> string \<Rightarrow> manager \<Rightarrow> manager" where
  "train_user_model env uid s =
     (if \<not> SKLEARN_AVAILABLE env then s
      else
        (case user_profiles s uid of
           None \<Rightarrow> s
         | Some p \<Rightarrow>
             (let td = training_data p
              in if length td > 0 \<and> np_available env then
                   (case scalers s uid of
                      None \<Rightarrow> s
                    | Some scaler \<Rightarrow>
                        (let s1 = (case scaler of
                                     None \<Rightarrow> s
                                   | Some _ \<Rightarrow> s\<lparr>scalers := (scalers s)(uid \<mapsto> Some (Fitted td))\<rparr>)
                         in case anomaly_models s1 uid of
                              None \<Rightarrow> s1
                            | Some model \<Rightarrow>
                                (case model of
                                   None \<Rightarrow> s1
                                 | Some Unfitted \<Rightarrow> s1
                                 | Some (Fitted md) \<Rightarrow>
                                     s1\<lparr>anomaly_models :=
                                          (anomaly_models s1)(uid \<mapsto> Some (Fitted td))\<rparr>)))
                 else s)))"

section \<open>The public operations\<close>

datatype anomaly =
    ScoreAnomaly string real string
  | DeviceAnomaly string string string
  | RecentAnomaly string real string

text \<open>
  \<open>ScoreAnomaly type score description\<close>, \<open>DeviceAnomaly type description severity\<close> and
  \<open>RecentAnomaly type score timestamp\<close> are the three shapes of anomaly dictionaries.
  \<open>res_error\<close> is the \<^verbatim>\<open>error\<close> key, absent unless the \<^verbatim>\<open>except\<close> branch ran.
\<close>

record results =
  res_user_id :: string
  events_processed :: nat
  anomaly_score :: real
  anomalies_detected :: "anomaly list"
  res_timestamp :: string
  res_error :: "py_error option"

record device_results =
  dev_user_id :: string
  device_match :: bool
  dev_anomalies_detected :: "anomaly list"
  dev_timestamp :: string
  dev_error :: "py_error option"

record assessment =
  sa_user_id :: string
  security_score :: int
  risk_level :: string
  anomalies_count :: int
  sa_baseline_established :: bool
  sa_timestamp :: "string option"

text \<open>
  The two assignments of the buffering loop, on the \<open>i\<close>-th event of the batch. The
  events of a batch are distinct objects (they come from one parsed request body).
\<close>

definition tag_event :: "string \<Rightarrow> clock \<Rightarrow> nat \<Rightarrow> event \<Rightarrow> event" where
  "tag_event tag clk i e = e(''type'' \<mapsto> PStr tag, ''timestamp'' \<mapsto> PStr (now_iso clk (i + 2)))"

definition tag_events :: "string \<Rightarrow> clock \<Rightarrow> event list \<Rightarrow> event list" where
  "tag_events tag clk events = map (\<lambda>(i, e). tag_event tag clk i e) (enumerate 0 events)"

text \<open>
  The buffering loop when \<^verbatim>\<open>self.behavior_buffer[user_id]\<close> raises \<^verbatim>\<open>KeyError\<close>: the first
  event has been assigned to already.
\<close>

definition tag_first :: "string \<Rightarrow> clock \<Rightarrow> event list \<Rightarrow> event list" where
  "tag_first tag clk events = (case events of [] \<Rightarrow> [] | e # es \<Rightarrow> tag_event tag clk 0 e # es)"

definition maintain_buffer :: "event list \<Rightarrow> event list" where
  "maintain_buffer buf = (if length buf > buffer_size then last_n buffer_size buf else buf)"

definition set_profile :: "string \<Rightarrow> profile \<Rightarrow> manager \<Rightarrow> manager" where
  "set_profile uid p s = s\<lparr>user_profiles := (user_profiles s)(uid \<mapsto> p)\<rparr>"

text \<open>
  \<^verbatim>\<open>process_keystroke_data\<close> returns the new state, the result dictionary and the caller's
  event list as the call leaves it (the events are assigned to in place).
\<close>

definition process_keystroke_data ::
  "backend \<Rightarrow> clock \<Rightarrow> string \<Rightarrow> event list \<Rightarrow> manager \<Rightarrow> manager \<times> results \<times> event list" where
  "process_keystroke_data env clk uid keystroke_events s =
     (let (profile, s1) = ensure_profile env clk uid s;
          results = \<lparr>res_user_id = uid, events_processed = length keystroke_events,
                     anomaly_score = 0.0, anomalies_detected = [],
                     res_timestamp = now_iso clk 1, res_error = None\<rparr>
      in case extract_keystroke_features clk keystroke_events of
           Inl e \<Rightarrow> (s1, results\<lparr>res_error := Some e\<rparr>, keystroke_events)
         | Inr features \<Rightarrow>
             (let profile1 = update_keystroke_profile profile features;
                  s2 = set_profile uid profile1 s1
              in case behavior_buffer s2 uid of
                   None \<Rightarrow> (s2, results\<lparr>res_error := Some KeyError\<rparr>,
                            tag_first ''keystroke'' clk keystroke_events)
                 | Some buf \<Rightarrow>
                     (let events1 = tag_events ''keystroke'' clk keystroke_events;
                          s3 = s2\<lparr>behavior_buffer :=
                                    (behavior_buffer s2)(uid \<mapsto> maintain_buffer (buf @ events1))\<rparr>
                      in if baseline_established profile1 then
                           (let score = detect_keystroke_anomalies env s3 uid features;
                                results1 = results\<lparr>anomaly_score := score\<rparr>
                            in (s3,
                                (if score > anomaly_threshold profile1
                                 then results1\<lparr>anomalies_detected := anomalies_detected results1 @
                                        [ScoreAnomaly ''keystroke'' score
                                           ''Unusual keystroke pattern detected'']\<rparr>
                                 else results1),
                                events1))
                         else if check_baseline_sufficient profile1 then
                           (train_user_model env uid
                              (set_profile uid (profile1\<lparr>baseline_established := True\<rparr>) s3),
                            results, events1)
                         else (s3, results, events1))))"

definition process_mouse_data ::
  "backend \<Rightarrow> clock \<Rightarrow> string \<Rightarrow> event list \<Rightarrow> manager \<Rightarrow> manager \<times> results \<times> event list" where
  "process_mouse_data env clk uid mouse_events s =
     (let (profile, s1) = ensure_profile env clk uid s;
          results = \<lparr>res_user_id = uid, events_processed = length mouse_events,
                     anomaly_score = 0.0, anomalies_detected = [],
                     res_timestamp = now_iso clk 1, res_error = None\<rparr>;
          features = extract_mouse_features mouse_events;
          profile1 = update_mouse_profile profile features;
          s2 = set_profile uid profile1 s1
      in case behavior_buffer s2 uid of
           None \<Rightarrow> (s2, results\<lparr>res_error := Some KeyError\<rparr>, tag_first ''mouse'' clk mouse_events)
         | Some buf \<Rightarrow>
             (let events1 = tag_events ''mouse'' clk mouse_events;
                  s3 = s2\<lparr>behavior_buffer :=
                            (behavior_buffer s2)(uid \<mapsto> maintain_buffer (buf @ events1))\<rparr>
              in if baseline_established profile1 then
                   (let score = detect_mouse_anomalies env s3 uid features;
                        results1 = results\<lparr>anomaly_score := score\<rparr>
                    in (s3,
                        (if score > anomaly_threshold profile1
                         then results1\<lparr>anomalies_detected := anomalies_detected results1 @
                                [ScoreAnomaly ''mouse'' score
                                   ''Unusual mouse movement pattern detected'']\<rparr>
                         else results1),
                        events1))
                 else (s3, results, events1)))"

text \<open>
  One device check of \<^verbatim>\<open>process_device_data\<close>: \<^verbatim>\<open>device_patterns[k]\<close> raises \<^verbatim>\<open>KeyError\<close>
  on a missing key; otherwise the entry is appended when the stored value is true and
  differs from \<^verbatim>\<open>device_info.get(k)\<close>.
\<close>

definition dev_get :: "pydict \<Rightarrow> string \<Rightarrow> pyval" where
  "dev_get device_info k = (case device_info k of None \<Rightarrow> PNone | Some v \<Rightarrow> v)"

definition device_check ::
  "pydict \<Rightarrow> pydict \<Rightarrow> string \<Rightarrow> anomaly \<Rightarrow> anomaly list \<Rightarrow> py_error + anomaly list" where
  "device_check dp device_info k a found =
     (case dp k of
        None \<Rightarrow> Inl KeyError
      | Some stored \<Rightarrow>
          Inr (if truthy stored \<and> stored \<noteq> dev_get device_info k then found @ [a] else found))"

definition process_device_data ::
  "backend \<Rightarrow> clock \<Rightarrow> string \<Rightarrow> pydict \<Rightarrow> manager \<Rightarrow> manager \<times> device_results" where
  "process_device_data env clk uid device_info s =
     (let (profile, s1) = ensure_profile env clk uid s;
          results = \<lparr>dev_user_id = uid, device_match = True, dev_anomalies_detected = [],
                     dev_timestamp = now_iso clk 1, dev_error = None\<rparr>;
          dp = device_patterns profile
      in case device_check dp device_info ''screen_resolution''
                (DeviceAnomaly ''device'' ''Screen resolution changed'' ''medium'') [] of
           Inl e \<Rightarrow> (s1, results\<lparr>dev_error := Some e\<rparr>)
         | Inr found1 \<Rightarrow>
             (case device_check dp device_info ''browser_info''
                     (DeviceAnomaly ''device'' ''Browser information changed'' ''low'') found1 of
                Inl e \<Rightarrow> (s1, results\<lparr>dev_anomalies_detected := found1, dev_error := Some e\<rparr>)
              | Inr found2 \<Rightarrow>
                  (case device_check dp device_info ''ip_address''
                          (DeviceAnomaly ''device''
                             ''IP address changed - potential location change'' ''high'') found2 of
                     Inl e \<Rightarrow> (s1, results\<lparr>dev_anomalies_detected := found2, dev_error := Some e\<rparr>)
                   | Inr found3 \<Rightarrow>
                       (set_profile uid (profile\<lparr>device_patterns := dp ++ device_info\<rparr>) s1,
                        results\<lparr>dev_anomalies_detected := found3\<rparr>))))"

text \<open>
  \<^verbatim>\<open>_analyze_recent_behavior\<close>. It has no \<^verbatim>\<open>try\<close>: an exception of the feature extraction
  would leave \<^verbatim>\<open>get_security_score\<close> too.
\<close>

definition analyze_recent_behavior ::
  "backend \<Rightarrow> clock \<Rightarrow> manager \<Rightarrow> string \<Rightarrow> event list \<Rightarrow> py_error + anomaly list" where
  "analyze_recent_behavior env clk s uid events =
     (let keystroke_events = filter (\<lambda>e. e ''type'' = Some (PStr ''keystroke'')) events;
          mouse_events = filter (\<lambda>e. e ''type'' = Some (PStr ''mouse'')) events
      in case (if keystroke_events \<noteq> [] then
                 (case extract_keystroke_features clk keystroke_events of
                    Inl e \<Rightarrow> Inl e
                  | Inr features \<Rightarrow>
                      (let score = detect_keystroke_anomalies env s uid features
                       in Inr (if score > 0.5
                               then [RecentAnomaly ''keystroke'' score (now_iso clk 1)]
                               else [])))
               else Inr []) of
           Inl e \<Rightarrow> Inl e
         | Inr anomalies \<Rightarrow>
             Inr (if mouse_events \<noteq> [] then
                    (let features = extract_mouse_features mouse_events;
                         score = detect_mouse_anomalies env s uid features
                     in if score > 0.5
                        then anomalies @ [RecentAnomaly ''mouse'' score (now_iso clk 2)]
                        else anomalies)
                  else anomalies))"

definition get_security_score ::
  "backend \<Rightarrow> clock \<Rightarrow> string \<Rightarrow> manager \<Rightarrow> py_error + assessment" where
  "get_security_score env clk uid s =
     (case user_profiles s uid of
        None \<Rightarrow> Inr \<lparr>sa_user_id = uid, security_score = 0, risk_level = ''unknown'',
                     anomalies_count = 0, sa_baseline_established = False,
                     sa_timestamp = None\<rparr>
      | Some profile \<Rightarrow>
          (let recent_events = buffer_of s uid
           in case (if recent_events \<noteq> [] then
                      (case analyze_recent_behavior env clk s uid recent_events of
                         Inl e \<Rightarrow> Inl e
                       | Inr recent_anomalies \<Rightarrow>
                           (let count = int (length recent_anomalies)
                            in Inr (100 - count * 10,
                                    (if count = 0 then ''low''
                                     else if count \<le> 2 then ''medium''
                                     else ''high''),
                                    count)))
                    else Inr (100, ''low'', 0)) of
                Inl e \<Rightarrow> Inl e
              | Inr (score, risk, count) \<Rightarrow>
                  Inr \<lparr>sa_user_id = uid, security_score = max 0 (min 100 score),
                       risk_level = risk, anomalies_count = count,
                       sa_baseline_established = baseline_established profile,
                       sa_timestamp = Some (now_iso clk 0)\<rparr>))"

section \<open>Sequences of operations\<close>

datatype operation =
    Keystroke string "event list"
  | Mouse string "event list"
  | Device string pydict
  | Score string

text \<open>One call of a public operation, with the clock of that call; only the state is kept.\<close>

fun step :: "backend \<Rightarrow> clock \<times> operation \<Rightarrow> manager \<Rightarrow> manager" where
  "step env (clk, Keystroke uid events) s = fst (process_keystroke_data env clk uid events s)"
| "step env (clk, Mouse uid events) s = fst (process_mouse_data env clk uid events s)"
| "step env (clk, Device uid device_info) s = fst (process_device_data env clk uid device_info s)"
| "step env (clk, Score uid) s = s"

definition run :: "backend \<Rightarrow> (clock \<times> operation) list \<Rightarrow> manager \<Rightarrow> manager" where
  "run env ops s = fold (step env) ops s"

section \<open>Notions used in the properties\<close>

text \<open>Whether a user's baseline is established; a user without a profile has none.\<close>

definition established :: "manager \<Rightarrow> string \<Rightarrow> bool" where
  "established s uid =
     (case user_profiles s uid of None \<Rightarrow> False | Some p \<Rightarrow> baseline_established p)"

definition intervals_of_user :: "manager \<Rightarrow> string \<Rightarrow> real list" where
  "intervals_of_user s uid =
     (case user_profiles s uid of None \<Rightarrow> [] | Some p \<Rightarrow> keystroke_intervals (keystroke_pats p))"

text \<open>
  The invariant of the states the operations produce: a user has a buffer exactly when
  they have a profile, and both histories are within their caps.
\<close>

definition well_formed :: "manager \<Rightarrow> bool" where
  "well_formed s =
     (\<forall>u. (behavior_buffer s u = None) = (user_profiles s u = None)
          \<and> length (buffer_of s u) \<le> buffer_size
          \<and> length (intervals_of_user s u) \<le> 1000)"

text \<open>
  What a call submits to user \<open>u\<close>'s buffer and interval history: a keystroke batch whose
  feature extraction raises submits nothing.
\<close>

fun buffered_by :: "clock \<Rightarrow> operation \<Rightarrow> string \<Rightarrow> event list" where
  "buffered_by clk (Keystroke uid events) u =
     (if u = uid then
        (case extract_keystroke_features clk events of
           Inl e \<Rightarrow> []
         | Inr f \<Rightarrow> tag_events ''keystroke'' clk events)
      else [])"
| "buffered_by clk (Mouse uid events) u =
     (if u = uid then tag_events ''mouse'' clk events else [])"
| "buffered_by clk (Device uid device_info) u = []"
| "buffered_by clk (Score uid) u = []"

fun recorded_by :: "clock \<Rightarrow> operation \<Rightarrow> string \<Rightarrow> real list" where
  "recorded_by clk (Keystroke uid events) u =
     (if u = uid then
        (case extract_keystroke_features clk events of
           Inr (Some f) \<Rightarrow> kf_intervals f
         | _ \<Rightarrow> [])
      else [])"
| "recorded_by clk (Mouse uid events) u = []"
| "recorded_by clk (Device uid device_info) u = []"
| "recorded_by clk (Score uid) u = []"

text \<open>The profile a keystroke call leaves for its user, from the profile it found.\<close>

definition keystroke_profile_after :: "clock \<Rightarrow> event list \<Rightarrow> profile \<Rightarrow> profile" where
  "keystroke_profile_after clk evs p =
     (case extract_keystroke_features clk evs of
        Inl e \<Rightarrow> p
      | Inr f \<Rightarrow>
          (let q = update_keystroke_profile p f
           in if \<not> baseline_established q \<and> check_baseline_sufficient q
              then q\<lparr>baseline_established := True\<rparr> else q))"

subsection \<open>Example inputs\<close>

definition example_clock :: clock where
  "example_clock = \<lparr>now_iso = (\<lambda>k. ''2024-01-01T00:00:00''), time_time = (\<lambda>k. 0)\<rparr>"

definition example_backend :: backend where
  "example_backend =
     \<lparr>SKLEARN_AVAILABLE = True, np_available = True,
      transform = (\<lambda>td x. x), predict = (\<lambda>td x. 1), decision_function = (\<lambda>td x. 0.2)\<rparr>"

definition keydown :: "real \<Rightarrow> event" where
  "keydown t = [''type'' \<mapsto> PStr ''keydown'', ''timestamp'' \<mapsto> PNum t]"

definition click :: event where
  "click = [''type'' \<mapsto> PStr ''click'']"

definition zero_keystroke_features :: keystroke_features where
  "zero_keystroke_features =
     \<lparr>typing_speed = 0, kf_intervals = [], error_count = 0, special_key_usage = 0\<rparr>"

definition zero_mouse_features :: mouse_features where
  "zero_mouse_features =
     \<lparr>movement_speed = 0, click_count = 0, scroll_count = 0, mf_movement_variance = 0\<rparr>"

definition later_clock :: clock where
  "later_clock = \<lparr>now_iso = (\<lambda>k. ''2024-01-01T00:00:05''), time_time = (\<lambda>k. 5)\<rparr>"

text \<open>The number of channels of the buffer whose re-scored features exceed 0.5.\<close>

definition channel_anomalies :: "backend \<Rightarrow> manager \<Rightarrow> string \<Rightarrow> int" where
  "channel_anomalies env s uid =
     (if (\<exists>e \<in> set (buffer_of s uid). e ''type'' = Some (PStr ''keystroke''))
         \<and> detect_keystroke_anomalies env s uid (Some zero_keystroke_features) > 0.5
      then 1 else 0)
     + (if (\<exists>e \<in> set (buffer_of s uid). e ''type'' = Some (PStr ''mouse''))
         \<and> detect_mouse_anomalies env s uid (Some zero_mouse_features) > 0.5
      then 1 else 0)"

definition assessment_of :: "backend \<Rightarrow> manager \<Rightarrow> string \<Rightarrow> string option \<Rightarrow> assessment" where
  "assessment_of env s uid ts =
     (case user_profiles s uid of
        None \<Rightarrow> \<lparr>sa_user_id = uid, security_score = 0, risk_level = ''unknown'',
                  anomalies_count = 0, sa_baseline_established = False, sa_timestamp = None\<rparr>
      | Some p \<Rightarrow>
          (let n = channel_anomalies env s uid
           in \<lparr>sa_user_id = uid, security_score = max 0 (min 100 (100 - n * 10)),
               risk_level = (if n = 0 then ''low'' else if n \<le> 2 then ''medium'' else ''high''),
               anomalies_count = n, sa_baseline_established = baseline_established p,
               sa_timestamp = ts\<rparr>))"

definition typed_manager :: manager where
  "typed_manager = run example_backend
     [(example_clock, Keystroke ''alice'' [keydown 1]), (example_clock, Mouse ''alice'' [click])]
     init_manager"

text \<open>
  A user has no trained scorer when the model or the scaler is missing, \<^verbatim>\<open>None\<close> or
  not fitted.
\<close>

definition untrained :: "manager \<Rightarrow> string \<Rightarrow> bool" where
  "untrained s uid =
     (case (dict_get (anomaly_models s) uid, dict_get (scalers s) uid) of
        (Some (Fitted md), Some (Fitted sd)) \<Rightarrow> False
      | _ \<Rightarrow> True)"

definition offline_backend :: backend where
  "offline_backend = example_backend\<lparr>SKLEARN_AVAILABLE := False, np_available := False\<rparr>"

text \<open>Every profile keeps the three device keys that \<^verbatim>\<open>process_device_data\<close> reads.\<close>

definition device_keys :: "manager \<Rightarrow> bool" where
  "device_keys s =
     (\<forall>u. case user_profiles s u of
            None \<Rightarrow> True
          | Some p \<Rightarrow> device_patterns p ''screen_resolution'' \<noteq> None
                     \<and> device_patterns p ''browser_info'' \<noteq> None
                     \<and> device_patterns p ''ip_address'' \<noteq> None)"

text \<open>
  The entry a device field contributes: one entry when the stored value is true (not
  \<^verbatim>\<open>None\<close>, not zero, not the empty string) and differs from the snapshot's, none otherwise.
\<close>

definition field_anomaly :: "pydict \<Rightarrow> pydict \<Rightarrow> string \<Rightarrow> anomaly \<Rightarrow> anomaly list" where
  "field_anomaly dp device_info k a =
     (if truthy (dev_get dp k) \<and> dev_get dp k \<noteq> dev_get device_info k then [a] else [])"

definition device_manager :: "pydict \<Rightarrow> manager" where
  "device_manager device_info =
     run example_backend [(example_clock, Device ''alice'' device_info)] init_manager"

definition stored_device :: "manager \<Rightarrow> string \<Rightarrow> string \<Rightarrow> pyval option" where
  "stored_device s uid k =
     (case user_profiles s uid of None \<Rightarrow> None | Some p \<Rightarrow> device_patterns p k)"

text \<open>Every buffered event carries one of the two modality tags.\<close>

definition tagged :: "manager \<Rightarrow> bool" where
  "tagged s =
     (\<forall>u. \<forall>e \<in> set (buffer_of s u).
        e ''type'' = Some (PStr ''keystroke'') \<or> e ''type'' = Some (PStr ''mouse''))"

text \<open>The estimator entries \<^verbatim>\<open>create_user_profile\<close> stores, and the scaler training leaves.\<close>

definition fresh_estimator :: "backend \<Rightarrow> estimator option" where
  "fresh_estimator env = (if SKLEARN_AVAILABLE env then Some Unfitted else None)"

definition fitted_by :: "backend \<Rightarrow> profile \<Rightarrow> estimator option" where
  "fitted_by env p =
     (if SKLEARN_AVAILABLE env \<and> np_available env \<and> training_data p \<noteq> []
      then Some (Fitted (training_data p)) else fresh_estimator env)"

text \<open>
  Every model is as created, and until a user's baseline is established their scaler is
  as created too.
\<close>

definition untrained_before_baseline :: "backend \<Rightarrow> manager \<Rightarrow> bool" where
  "untrained_before_baseline env s =
     (\<forall>u. (anomaly_models s u = None \<or> anomaly_models s u = Some (fresh_estimator env))
          \<and> (case user_profiles s u of
                None \<Rightarrow> True
              | Some p \<Rightarrow> anomaly_models s u = Some (fresh_estimator env)
                         \<and> (baseline_established p
                              \<or> scalers s u = Some (fresh_estimator env))))"

text \<open>Whether the sufficiency check of a keystroke call on profile \<open>p\<close> succeeds.\<close>

definition sufficient_after :: "clock \<Rightarrow> event list \<Rightarrow> profile \<Rightarrow> bool" where
  "sufficient_after clk evs p =
     (case extract_keystroke_features clk evs of
        Inl e \<Rightarrow> False
      | Inr f \<Rightarrow> check_baseline_sufficient (update_keystroke_profile p f))"

definition clicking_manager :: manager where
  "clicking_manager =
     run example_backend (replicate 20 (example_clock, Mouse ''alice'' [click])) init_manager"

definition typing_batch :: "event list" where
  "typing_batch = map (\<lambda>n. keydown (real n)) [0..<51]"

definition typing_manager :: manager where
  "typing_manager =
     run example_backend [(example_clock, Keystroke ''alice'' typing_batch)] init_manager"

definition clicked_then_typed :: manager where
  "clicked_then_typed =
     run example_backend
       (replicate 20 (example_clock, Mouse ''alice'' [click])
        @ [(example_clock, Keystroke ''alice'' [keydown 1])])
       init_manager"

section \<open>State lemmas\<close>

lemma last_n_short: "length xs \<le> n \<Longrightarrow> last_n n xs = xs"
  by (simp add: last_n_def)

lemma length_last_n: "length (last_n n xs) = min n (length xs)"
  by (simp add: last_n_def)

lemma maintain_buffer_eq: "maintain_buffer xs = last_n buffer_size xs"
  by (simp add: maintain_buffer_def last_n_def)

lemma train_user_model_profiles [simp]:
  "user_profiles (train_user_model env uid s) = user_profiles s"
  by (simp add: train_user_model_def Let_def split: option.splits estimator.splits)

lemma train_user_model_buffer [simp]:
  "behavior_buffer (train_user_model env uid s) = behavior_buffer s"
  by (simp add: train_user_model_def Let_def split: option.splits estimator.splits)

lemma intervals_update_keystroke:
  "length (keystroke_intervals (keystroke_pats p)) \<le> 1000 \<Longrightarrow>
   keystroke_intervals (keystroke_pats (update_keystroke_profile p features)) =
     last_n 1000 (keystroke_intervals (keystroke_pats p)
                  @ (case features of None \<Rightarrow> [] | Some f \<Rightarrow> kf_intervals f))"
  by (simp add: update_keystroke_profile_def Let_def last_n_def split: option.splits)

lemma intervals_update_mouse [simp]:
  "keystroke_pats (update_mouse_profile p features) = keystroke_pats p"
  by (simp add: update_mouse_profile_def Let_def split: option.splits)

lemma well_formedD:
  assumes "well_formed s"
  shows "(behavior_buffer s u = None) = (user_profiles s u = None)"
    and "length (buffer_of s u) \<le> buffer_size"
    and "length (intervals_of_user s u) \<le> 1000"
  using assms unfolding well_formed_def by blast+

lemma ensure_profile_wf:
  assumes ens: "ensure_profile env clk uid s = (p, s1)" and wf: "well_formed s"
  shows "well_formed s1" "buffer_of s1 = buffer_of s" "intervals_of_user s1 = intervals_of_user s"
    "user_profiles s1 uid = Some p" "behavior_buffer s1 uid = Some (buffer_of s uid)"
    "keystroke_intervals (keystroke_pats p) = intervals_of_user s uid"
proof -
  have all: "well_formed s1 \<and> buffer_of s1 = buffer_of s \<and> intervals_of_user s1 = intervals_of_user s
    \<and> user_profiles s1 uid = Some p \<and> behavior_buffer s1 uid = Some (buffer_of s uid)
    \<and> keystroke_intervals (keystroke_pats p) = intervals_of_user s uid"
  proof (cases "user_profiles s uid")
    case None
    then have nb: "behavior_buffer s uid = None"
      using well_formedD(1) [OF wf, of uid] by simp
    from None ens have p: "p = new_profile clk uid"
      and s1: "s1 = snd (create_user_profile env clk uid s)"
      by (auto simp: ensure_profile_def create_user_profile_def Let_def)
    have up: "user_profiles s1 = (user_profiles s)(uid \<mapsto> p)"
      and bb: "behavior_buffer s1 = (behavior_buffer s)(uid \<mapsto> [])"
      by (simp_all add: s1 p create_user_profile_def Let_def)
    have b: "buffer_of s1 = buffer_of s"
      by (rule ext) (simp add: buffer_of_def bb nb)
    have i: "intervals_of_user s1 = intervals_of_user s"
      by (rule ext) (simp add: intervals_of_user_def up None p new_profile_def)
    have "well_formed s1"
      unfolding well_formed_def
    proof (intro allI conjI)
      fix u
      show "(behavior_buffer s1 u = None) = (user_profiles s1 u = None)"
        using well_formedD(1) [OF wf, of u] by (simp add: up bb)
      show "length (buffer_of s1 u) \<le> buffer_size"
        using well_formedD(2) [OF wf, of u] by (simp add: b)
      show "length (intervals_of_user s1 u) \<le> 1000"
        using well_formedD(3) [OF wf, of u] by (simp add: i)
    qed
    moreover have "behavior_buffer s1 uid = Some (buffer_of s uid)"
      by (simp add: bb buffer_of_def nb)
    moreover have "keystroke_intervals (keystroke_pats p) = intervals_of_user s uid"
      by (simp add: intervals_of_user_def None p new_profile_def)
    ultimately show ?thesis using b i up by simp
  next
    case (Some q)
    with ens have eq: "p = q" "s1 = s"
      by (simp_all add: ensure_profile_def)
    from Some have "behavior_buffer s uid \<noteq> None"
      using well_formedD(1) [OF wf, of uid] by simp
    then have "behavior_buffer s uid = Some (buffer_of s uid)"
      by (auto simp: buffer_of_def)
    with Some eq wf show ?thesis
      by (simp add: intervals_of_user_def)
  qed
  from all show "well_formed s1" "buffer_of s1 = buffer_of s"
    "intervals_of_user s1 = intervals_of_user s"
    "user_profiles s1 uid = Some p" "behavior_buffer s1 uid = Some (buffer_of s uid)"
    "keystroke_intervals (keystroke_pats p) = intervals_of_user s uid"
    by simp_all
qed

lemma ensure_profile_other:
  assumes "ensure_profile env clk uid s = (p, s1)" "u \<noteq> uid"
  shows "user_profiles s1 u = user_profiles s u" "behavior_buffer s1 u = behavior_buffer s u"
  using assms
  by (auto simp add: ensure_profile_def create_user_profile_def Let_def split: option.splits)

text \<open>What one keystroke call does to the buffer and the interval history of every user.\<close>

lemma keystroke_other:
  assumes "u \<noteq> uid"
  shows "user_profiles (fst (process_keystroke_data env clk uid evs s)) u = user_profiles s u"
    and "behavior_buffer (fst (process_keystroke_data env clk uid evs s)) u = behavior_buffer s u"
proof -
  obtain p s1 where ens: "ensure_profile env clk uid s = (p, s1)"
    by (cases "ensure_profile env clk uid s")
  from ensure_profile_other [OF ens assms]
  show "user_profiles (fst (process_keystroke_data env clk uid evs s)) u = user_profiles s u"
    and "behavior_buffer (fst (process_keystroke_data env clk uid evs s)) u = behavior_buffer s u"
    using assms
    by (simp_all add: process_keystroke_data_def ens Let_def set_profile_def
        split: sum.splits option.splits)
qed

lemma keystroke_result:
  assumes ens: "ensure_profile env clk uid s = (p, s1)"
    and p: "user_profiles s1 uid = Some p"
    and b: "behavior_buffer s1 uid = Some buf"
    and lb: "length buf \<le> buffer_size"
  shows "user_profiles (fst (process_keystroke_data env clk uid evs s)) uid
           = Some (keystroke_profile_after clk evs p)"
    and "behavior_buffer (fst (process_keystroke_data env clk uid evs s)) uid
           = Some (last_n buffer_size (buf @ buffered_by clk (Keystroke uid evs) uid))"
proof -
  show "user_profiles (fst (process_keystroke_data env clk uid evs s)) uid
           = Some (keystroke_profile_after clk evs p)"
    using p b
    by (simp add: process_keystroke_data_def ens Let_def set_profile_def
        keystroke_profile_after_def split: sum.splits)
  show "behavior_buffer (fst (process_keystroke_data env clk uid evs s)) uid
           = Some (last_n buffer_size (buf @ buffered_by clk (Keystroke uid evs) uid))"
    using p b lb
    by (simp add: process_keystroke_data_def ens Let_def set_profile_def
        maintain_buffer_eq last_n_short split: sum.splits)
qed

lemma intervals_keystroke_profile_after:
  assumes "length (keystroke_intervals (keystroke_pats p)) \<le> 1000"
  shows "keystroke_intervals (keystroke_pats (keystroke_profile_after clk evs p))
           = last_n 1000 (keystroke_intervals (keystroke_pats p)
                @ recorded_by clk (Keystroke uid evs) uid)"
  using assms
  by (simp add: keystroke_profile_after_def Let_def intervals_update_keystroke last_n_short
      split: sum.splits option.splits)

lemma keystroke_self:
  assumes wf: "well_formed s"
  shows "buffer_of (fst (process_keystroke_data env clk uid evs s)) uid
           = last_n buffer_size (buffer_of s uid @ buffered_by clk (Keystroke uid evs) uid)"
    and "intervals_of_user (fst (process_keystroke_data env clk uid evs s)) uid
           = last_n 1000 (intervals_of_user s uid @ recorded_by clk (Keystroke uid evs) uid)"
    and "behavior_buffer (fst (process_keystroke_data env clk uid evs s)) uid \<noteq> None"
    and "user_profiles (fst (process_keystroke_data env clk uid evs s)) uid \<noteq> None"
proof -
  obtain p s1 where ens: "ensure_profile env clk uid s = (p, s1)"
    by (cases "ensure_profile env clk uid s")
  note e = ensure_profile_wf [OF ens wf]
  have lb: "length (buffer_of s uid) \<le> buffer_size"
    using well_formedD(2) [OF wf, of uid] .
  note r = keystroke_result [OF ens e(4) e(5) lb]
  have len: "length (keystroke_intervals (keystroke_pats p)) \<le> 1000"
    using well_formedD(3) [OF wf, of uid] by (simp add: e(6))
  show "buffer_of (fst (process_keystroke_data env clk uid evs s)) uid
           = last_n buffer_size (buffer_of s uid @ buffered_by clk (Keystroke uid evs) uid)"
    by (simp add: buffer_of_def r(2))
  show "intervals_of_user (fst (process_keystroke_data env clk uid evs s)) uid
           = last_n 1000 (intervals_of_user s uid @ recorded_by clk (Keystroke uid evs) uid)"
    using intervals_keystroke_profile_after [OF len, of clk evs uid]
    by (simp add: intervals_of_user_def [of "fst _"] r(1) e(6))
  show "behavior_buffer (fst (process_keystroke_data env clk uid evs s)) uid \<noteq> None"
    by (simp add: r(2))
  show "user_profiles (fst (process_keystroke_data env clk uid evs s)) uid \<noteq> None"
    by (simp add: r(1))
qed

lemma mouse_other:
  assumes "u \<noteq> uid"
  shows "user_profiles (fst (process_mouse_data env clk uid evs s)) u = user_profiles s u"
    and "behavior_buffer (fst (process_mouse_data env clk uid evs s)) u = behavior_buffer s u"
proof -
  obtain p s1 where ens: "ensure_profile env clk uid s = (p, s1)"
    by (cases "ensure_profile env clk uid s")
  from ensure_profile_other [OF ens assms]
  show "user_profiles (fst (process_mouse_data env clk uid evs s)) u = user_profiles s u"
    and "behavior_buffer (fst (process_mouse_data env clk uid evs s)) u = behavior_buffer s u"
    using assms
    by (simp_all add: process_mouse_data_def ens Let_def set_profile_def split: option.splits)
qed

lemma mouse_result:
  assumes ens: "ensure_profile env clk uid s = (p, s1)"
    and p: "user_profiles s1 uid = Some p"
    and b: "behavior_buffer s1 uid = Some buf"
  shows "user_profiles (fst (process_mouse_data env clk uid evs s)) uid
           = Some (update_mouse_profile p (extract_mouse_features evs))"
    and "behavior_buffer (fst (process_mouse_data env clk uid evs s)) uid
           = Some (last_n buffer_size (buf @ tag_events ''mouse'' clk evs))"
  using p b
  by (simp_all add: process_mouse_data_def ens Let_def set_profile_def maintain_buffer_eq)

lemma device_other:
  assumes "u \<noteq> uid"
  shows "user_profiles (fst (process_device_data env clk uid di s)) u = user_profiles s u"
    and "behavior_buffer (fst (process_device_data env clk uid di s)) u = behavior_buffer s u"
proof -
  obtain p s1 where ens: "ensure_profile env clk uid s = (p, s1)"
    by (cases "ensure_profile env clk uid s")
  from ensure_profile_other [OF ens assms]
  show "user_profiles (fst (process_device_data env clk uid di s)) u = user_profiles s u"
    and "behavior_buffer (fst (process_device_data env clk uid di s)) u = behavior_buffer s u"
    using assms
    by (simp_all add: process_device_data_def ens Let_def set_profile_def
        split: sum.splits option.splits)
qed

lemma device_result:
  assumes ens: "ensure_profile env clk uid s = (p, s1)"
    and p: "user_profiles s1 uid = Some p"
  shows "\<exists>q. user_profiles (fst (process_device_data env clk uid di s)) uid = Some q
           \<and> keystroke_pats q = keystroke_pats p \<and> mouse_pats q = mouse_pats p
           \<and> baseline_established q = baseline_established p"
    and "behavior_buffer (fst (process_device_data env clk uid di s)) uid
           = behavior_buffer s1 uid"
  using p
  by (simp_all add: process_device_data_def ens Let_def set_profile_def split: sum.splits)

text \<open>The effect of one call on one user's buffer and interval history.\<close>

lemma step_effect:
  assumes wf: "well_formed s"
  shows "buffer_of (step env (clk, op) s) u
           = last_n buffer_size (buffer_of s u @ buffered_by clk op u)"
    and "intervals_of_user (step env (clk, op) s) u
           = last_n 1000 (intervals_of_user s u @ recorded_by clk op u)"
    and "(behavior_buffer (step env (clk, op) s) u = None)
           = (user_profiles (step env (clk, op) s) u = None)"
proof -
  note w = well_formedD [OF wf, of u]
  have "buffer_of (step env (clk, op) s) u
           = last_n buffer_size (buffer_of s u @ buffered_by clk op u)
      \<and> intervals_of_user (step env (clk, op) s) u
           = last_n 1000 (intervals_of_user s u @ recorded_by clk op u)
      \<and> (behavior_buffer (step env (clk, op) s) u = None)
           = (user_profiles (step env (clk, op) s) u = None)"
  proof (cases op)
    case (Keystroke uid evs)
    show ?thesis
    proof (cases "u = uid")
      case True
      with keystroke_self [OF wf, of env clk uid evs] show ?thesis
        by (auto simp add: Keystroke)
    next
      case False
      with keystroke_other [OF False, of env clk evs s] w show ?thesis
        by (simp add: Keystroke buffer_of_def intervals_of_user_def last_n_short)
    qed
  next
    case (Mouse uid evs)
    show ?thesis
    proof (cases "u = uid")
      case True
      obtain p s1 where ens: "ensure_profile env clk uid s = (p, s1)"
        by (cases "ensure_profile env clk uid s")
      note e = ensure_profile_wf [OF ens wf]
      note r = mouse_result [OF ens e(4) e(5), of evs]
      from w show ?thesis
        by (simp add: Mouse True buffer_of_def [of "fst _"] intervals_of_user_def [of "fst _"]
            r e(6) last_n_short)
    next
      case False
      with mouse_other [OF False, of env clk evs s] w show ?thesis
        by (simp add: Mouse buffer_of_def intervals_of_user_def last_n_short)
    qed
  next
    case (Device uid di)
    show ?thesis
    proof (cases "u = uid")
      case True
      obtain p s1 where ens: "ensure_profile env clk uid s = (p, s1)"
        by (cases "ensure_profile env clk uid s")
      note e = ensure_profile_wf [OF ens wf]
      from device_result [OF ens e(4), of di] obtain q where
        r: "user_profiles (fst (process_device_data env clk uid di s)) uid = Some q"
           "keystroke_pats q = keystroke_pats p"
           "behavior_buffer (fst (process_device_data env clk uid di s)) uid
              = behavior_buffer s1 uid"
        by blast
      from w show ?thesis
        by (simp add: Device True buffer_of_def [of "fst _"] intervals_of_user_def [of "fst _"]
            r e(5) e(6) last_n_short)
    next
      case False
      with device_other [OF False, of env clk di s] w show ?thesis
        by (simp add: Device buffer_of_def intervals_of_user_def last_n_short)
    qed
  next
    case (Score uid)
    with w show ?thesis by (simp add: last_n_short)
  qed
  then show "buffer_of (step env (clk, op) s) u
           = last_n buffer_size (buffer_of s u @ buffered_by clk op u)"
    and "intervals_of_user (step env (clk, op) s) u
           = last_n 1000 (intervals_of_user s u @ recorded_by clk op u)"
    and "(behavior_buffer (step env (clk, op) s) u = None)
           = (user_profiles (step env (clk, op) s) u = None)"
    by simp_all
qed

lemma step_well_formed:
  assumes "well_formed s"
  shows "well_formed (step env cop s)"
proof -
  obtain clk op where cop: "cop = (clk, op)" by (cases cop)
  show ?thesis
    unfolding well_formed_def cop
    by (simp add: step_effect [OF assms] length_last_n)
qed

lemma init_well_formed: "well_formed init_manager"
  by (simp add: well_formed_def init_manager_def buffer_of_def intervals_of_user_def)

lemma run_well_formed: "well_formed s \<Longrightarrow> well_formed (run env ops s)"
  unfolding run_def
  by (induction ops arbitrary: s) (simp_all add: step_well_formed)

section \<open>The baseline flag\<close>

lemma update_keystroke_profile_baseline [simp]:
  "baseline_established (update_keystroke_profile p f) = baseline_established p"
  by (simp add: update_keystroke_profile_def Let_def split: option.splits)

lemma update_mouse_profile_baseline [simp]:
  "baseline_established (update_mouse_profile p f) = baseline_established p"
  by (simp add: update_mouse_profile_def Let_def split: option.splits)

lemma ensure_profile_existing:
  "user_profiles s uid = Some p \<Longrightarrow> ensure_profile env clk uid s = (p, s)"
  by (simp add: ensure_profile_def)

lemma keystroke_established:
  assumes "user_profiles s uid = Some p" "baseline_established p"
  shows "\<exists>p'. user_profiles (fst (process_keystroke_data env clk uid evs s)) uid = Some p'
      \<and> baseline_established p'"
  using assms
  by (simp add: process_keystroke_data_def ensure_profile_existing Let_def set_profile_def
        split: sum.splits option.splits)

lemma mouse_established:
  assumes "user_profiles s uid = Some p" "baseline_established p"
  shows "\<exists>p'. user_profiles (fst (process_mouse_data env clk uid evs s)) uid = Some p'
      \<and> baseline_established p'"
  using assms
  by (simp add: process_mouse_data_def ensure_profile_existing Let_def set_profile_def
        split: sum.splits option.splits)

lemma device_established:
  assumes "user_profiles s uid = Some p" "baseline_established p"
  shows "\<exists>p'. user_profiles (fst (process_device_data env clk uid di s)) uid = Some p'
      \<and> baseline_established p'"
  using assms
  by (simp add: process_device_data_def ensure_profile_existing Let_def set_profile_def
        split: sum.splits option.splits)

lemma step_established:
  assumes "established s u"
  shows "established (step env cop s) u"
proof -
  obtain clk op where cop: "cop = (clk, op)" by (cases cop)
  from assms obtain p where p: "user_profiles s u = Some p" "baseline_established p"
    by (auto simp: established_def split: option.splits)
  show ?thesis
  proof (cases op)
    case (Keystroke uid evs)
    show ?thesis
    proof (cases "u = uid")
      case True
      with keystroke_established [OF p, of env clk evs] show ?thesis
        by (auto simp: cop Keystroke established_def)
    next
      case False
      with p keystroke_other(1) [of u uid env clk evs s] show ?thesis
        by (simp add: cop Keystroke established_def)
    qed
  next
    case (Mouse uid evs)
    show ?thesis
    proof (cases "u = uid")
      case True
      with mouse_established [OF p, of env clk evs] show ?thesis
        by (auto simp: cop Mouse established_def)
    next
      case False
      with p mouse_other(1) [of u uid env clk evs s] show ?thesis
        by (simp add: cop Mouse established_def)
    qed
  next
    case (Device uid di)
    show ?thesis
    proof (cases "u = uid")
      case True
      with device_established [OF p, of env clk di] show ?thesis
        by (auto simp: cop Device established_def)
    next
      case False
      with p device_other(1) [of u uid env clk di s] show ?thesis
        by (simp add: cop Device established_def)
    qed
  next
    case (Score uid)
    with assms show ?thesis by (simp add: cop)
  qed
qed

lemma run_established:
  "established s u \<Longrightarrow> established (run env ops s) u"
  unfolding run_def
  by (induction ops arbitrary: s) (simp_all add: step_established)


section \<open>The security score\<close>

lemma keydown_times_none:
  assumes "\<forall>e \<in> set evs. e ''type'' \<noteq> Some (PStr ''keydown'')"
  shows "keydown_times clk evs = []"
proof -
  have "filter (\<lambda>(i, e). e ''type'' = Some (PStr ''keydown'')) (enumerate 0 evs) = []"
    unfolding filter_empty_conv
  proof
    fix x assume "x \<in> set (enumerate 0 evs)"
    then have "snd x \<in> snd ` set (enumerate 0 evs)"
      by (rule imageI)
    then have "snd x \<in> set evs"
      by (simp add: set_map [symmetric] del: set_map)
    with assms show "\<not> (case x of (i, e) \<Rightarrow> e ''type'' = Some (PStr ''keydown''))"
      by (cases x) auto
  qed
  then show ?thesis by (simp add: keydown_times_def)
qed

lemma extract_keystroke_no_keydown:
  assumes "\<forall>e \<in> set evs. e ''type'' \<noteq> Some (PStr ''keydown'')" "evs \<noteq> []"
  shows "extract_keystroke_features clk evs = Inr (Some zero_keystroke_features)"
  using assms
  by (simp add: extract_keystroke_features_def keydown_times_none Let_def
      zero_keystroke_features_def)

lemma fold_count_event_none:
  assumes "\<forall>e \<in> set evs. e ''type'' \<noteq> Some (PStr ''click'') \<and> e ''type'' \<noteq> Some (PStr ''scroll'')"
  shows "fold count_event evs f = f"
  using assms by (induction evs arbitrary: f) (simp_all add: count_event_def)

lemma extract_mouse_no_click:
  assumes "\<forall>e \<in> set evs. e ''type'' \<noteq> Some (PStr ''click'') \<and> e ''type'' \<noteq> Some (PStr ''scroll'')"
    "evs \<noteq> []"
  shows "extract_mouse_features evs = Some zero_mouse_features"
  using assms
  by (simp add: extract_mouse_features_def fold_count_event_none zero_mouse_features_def)

lemma filter_nonempty_iff: "(filter P xs \<noteq> []) = (\<exists>x \<in> set xs. P x)"
  by (simp add: filter_empty_conv)

lemma analyze_recent_behavior_count:
  "\<exists>found. analyze_recent_behavior env clk s uid (buffer_of s uid) = Inr found
      \<and> int (length found) = channel_anomalies env s uid"
proof -
  let ?ks = "filter (\<lambda>e. e ''type'' = Some (PStr ''keystroke'')) (buffer_of s uid)"
  let ?ms = "filter (\<lambda>e. e ''type'' = Some (PStr ''mouse'')) (buffer_of s uid)"
  have k: "?ks \<noteq> [] \<Longrightarrow> extract_keystroke_features clk ?ks = Inr (Some zero_keystroke_features)"
    by (rule extract_keystroke_no_keydown) simp_all
  have m: "?ms \<noteq> [] \<Longrightarrow> extract_mouse_features ?ms = Some zero_mouse_features"
    by (rule extract_mouse_no_click) simp_all
  have kne: "(?ks \<noteq> []) = (\<exists>e \<in> set (buffer_of s uid). e ''type'' = Some (PStr ''keystroke''))"
    by (rule filter_nonempty_iff)
  have mne: "(?ms \<noteq> []) = (\<exists>e \<in> set (buffer_of s uid). e ''type'' = Some (PStr ''mouse''))"
    by (rule filter_nonempty_iff)
  show ?thesis
  proof (cases "?ks = []")
    case True
    note kt = True
    show ?thesis
    proof (cases "?ms = []")
      case True
      with kt kne mne show ?thesis
        by (simp add: analyze_recent_behavior_def channel_anomalies_def Let_def)
    next
      case False
      with kt kne mne m show ?thesis
        by (simp add: analyze_recent_behavior_def channel_anomalies_def Let_def)
    qed
  next
    case False
    note kf = False
    show ?thesis
    proof (cases "?ms = []")
      case True
      with kf kne mne k show ?thesis
        by (simp add: analyze_recent_behavior_def channel_anomalies_def Let_def)
    next
      case False
      with kf kne mne k m show ?thesis
        by (simp add: analyze_recent_behavior_def channel_anomalies_def Let_def)
    qed
  qed
qed

lemma channel_anomalies_range: "0 \<le> channel_anomalies env s uid \<and> channel_anomalies env s uid \<le> 2"
  by (simp add: channel_anomalies_def)

lemma channel_anomalies_empty: "buffer_of s uid = [] \<Longrightarrow> channel_anomalies env s uid = 0"
  by (simp add: channel_anomalies_def)

lemma get_security_score_eq:
  "get_security_score env clk uid s = Inr (assessment_of env s uid (Some (now_iso clk 0)))"
proof (cases "user_profiles s uid")
  case None
  then show ?thesis by (simp add: get_security_score_def assessment_of_def)
next
  case (Some p)
  from analyze_recent_behavior_count [of env clk s uid] obtain found where
    f: "analyze_recent_behavior env clk s uid (buffer_of s uid) = Inr found"
       "int (length found) = channel_anomalies env s uid"
    by blast
  show ?thesis
  proof (cases "buffer_of s uid = []")
    case True
    with Some show ?thesis
      by (simp add: get_security_score_def assessment_of_def Let_def channel_anomalies_empty)
  next
    case False
    with Some f show ?thesis
      by (simp add: get_security_score_def assessment_of_def Let_def)
  qed
qed

section \<open>Scoring\<close>

lemma detect_scores_in_unit_interval:
  "0 \<le> detect_keystroke_anomalies env s uid kf \<and> detect_keystroke_anomalies env s uid kf \<le> 1 \<and>
   0 \<le> detect_mouse_anomalies env s uid mf \<and> detect_mouse_anomalies env s uid mf \<le> 1"
  by (simp add: detect_keystroke_anomalies_def detect_mouse_anomalies_def Let_def
      split: option.splits estimator.splits)

section \<open>Device fingerprints\<close>

lemma device_check_present:
  assumes "dp k \<noteq> None"
  shows "device_check dp di k a found = Inr (found @ field_anomaly dp di k a)"
  using assms by (auto simp: device_check_def field_anomaly_def dev_get_def)

lemma device_exact:
  assumes ens: "ensure_profile env clk uid s = (p, s1)"
    and k: "device_patterns p ''screen_resolution'' \<noteq> None"
      "device_patterns p ''browser_info'' \<noteq> None" "device_patterns p ''ip_address'' \<noteq> None"
  shows "process_device_data env clk uid di s =
     (set_profile uid (p\<lparr>device_patterns := device_patterns p ++ di\<rparr>) s1,
      \<lparr>dev_user_id = uid, device_match = True,
       dev_anomalies_detected =
         field_anomaly (device_patterns p) di ''screen_resolution''
           (DeviceAnomaly ''device'' ''Screen resolution changed'' ''medium'')
         @ field_anomaly (device_patterns p) di ''browser_info''
           (DeviceAnomaly ''device'' ''Browser information changed'' ''low'')
         @ field_anomaly (device_patterns p) di ''ip_address''
           (DeviceAnomaly ''device'' ''IP address changed - potential location change'' ''high''),
       dev_timestamp = now_iso clk 1, dev_error = None\<rparr>)"
  by (simp add: process_device_data_def ens Let_def device_check_present k)

lemma device_keys_profile:
  assumes "device_keys s" "ensure_profile env clk uid s = (p, s1)"
  shows "device_patterns p ''screen_resolution'' \<noteq> None"
      "device_patterns p ''browser_info'' \<noteq> None" "device_patterns p ''ip_address'' \<noteq> None"
proof -
  have "device_patterns p ''screen_resolution'' \<noteq> None
      \<and> device_patterns p ''browser_info'' \<noteq> None \<and> device_patterns p ''ip_address'' \<noteq> None"
  proof (cases "user_profiles s uid")
    case None
    with assms(2) have "p = new_profile clk uid"
      by (auto simp: ensure_profile_def create_user_profile_def Let_def)
    then show ?thesis by (simp add: new_profile_def)
  next
    case (Some q)
    with assms(2) have "p = q" by (simp add: ensure_profile_def)
    from assms(1) have "case user_profiles s uid of
            None \<Rightarrow> True
          | Some p \<Rightarrow> device_patterns p ''screen_resolution'' \<noteq> None
                     \<and> device_patterns p ''browser_info'' \<noteq> None
                     \<and> device_patterns p ''ip_address'' \<noteq> None"
      unfolding device_keys_def by (rule spec)
    with Some \<open>p = q\<close> show ?thesis by simp
  qed
  then show "device_patterns p ''screen_resolution'' \<noteq> None"
      "device_patterns p ''browser_info'' \<noteq> None" "device_patterns p ''ip_address'' \<noteq> None"
    by simp_all
qed

lemma device_patterns_update_keystroke [simp]:
  "device_patterns (update_keystroke_profile p f) = device_patterns p"
  by (simp add: update_keystroke_profile_def Let_def split: option.splits)

lemma device_patterns_update_mouse [simp]:
  "device_patterns (update_mouse_profile p f) = device_patterns p"
  by (simp add: update_mouse_profile_def Let_def split: option.splits)

lemma device_patterns_keystroke_profile_after [simp]:
  "device_patterns (keystroke_profile_after clk evs p) = device_patterns p"
  by (simp add: keystroke_profile_after_def Let_def split: sum.splits)

lemma device_keysI:
  assumes "\<And>u p. user_profiles s u = Some p \<Longrightarrow>
     device_patterns p ''screen_resolution'' \<noteq> None
     \<and> device_patterns p ''browser_info'' \<noteq> None \<and> device_patterns p ''ip_address'' \<noteq> None"
  shows "device_keys s"
  unfolding device_keys_def using assms by (auto split: option.splits)

lemma device_keysD:
  assumes "device_keys s" "user_profiles s u = Some p"
  shows "device_patterns p ''screen_resolution'' \<noteq> None
     \<and> device_patterns p ''browser_info'' \<noteq> None \<and> device_patterns p ''ip_address'' \<noteq> None"
proof -
  from assms(1) have "case user_profiles s u of
            None \<Rightarrow> True
          | Some p \<Rightarrow> device_patterns p ''screen_resolution'' \<noteq> None
                     \<and> device_patterns p ''browser_info'' \<noteq> None
                     \<and> device_patterns p ''ip_address'' \<noteq> None"
    unfolding device_keys_def by (rule spec)
  with assms(2) show ?thesis by simp
qed

lemma step_device_keys:
  assumes dk: "device_keys s" and wf: "well_formed s"
  shows "device_keys (step env cop s)"
proof (rule device_keysI)
  fix u q
  assume q: "user_profiles (step env cop s) u = Some q"
  obtain clk op where cop: "cop = (clk, op)" by (cases cop)
  let ?goal = "device_patterns q ''screen_resolution'' \<noteq> None
     \<and> device_patterns q ''browser_info'' \<noteq> None \<and> device_patterns q ''ip_address'' \<noteq> None"
  show ?goal
  proof (cases op)
    case (Keystroke uid evs)
    show ?thesis
    proof (cases "u = uid")
      case True
      obtain p s1 where ens: "ensure_profile env clk uid s = (p, s1)"
        by (cases "ensure_profile env clk uid s")
      note e = ensure_profile_wf [OF ens wf]
      have lb: "length (buffer_of s uid) \<le> buffer_size"
        using well_formedD(2) [OF wf, of uid] .
      from keystroke_result(1) [OF ens e(4) e(5) lb, of evs] q
      have "q = keystroke_profile_after clk evs p"
        by (simp add: cop Keystroke True)
      with device_keys_profile [OF dk ens] show ?thesis by simp
    next
      case False
      with q keystroke_other(1) [OF False, of env clk evs s]
      have "user_profiles s u = Some q" by (simp add: cop Keystroke)
      then show ?thesis by (rule device_keysD [OF dk])
    qed
  next
    case (Mouse uid evs)
    show ?thesis
    proof (cases "u = uid")
      case True
      obtain p s1 where ens: "ensure_profile env clk uid s = (p, s1)"
        by (cases "ensure_profile env clk uid s")
      note e = ensure_profile_wf [OF ens wf]
      from mouse_result(1) [OF ens e(4) e(5), of evs] q
      have "q = update_mouse_profile p (extract_mouse_features evs)"
        by (simp add: cop Mouse True)
      with device_keys_profile [OF dk ens] show ?thesis by simp
    next
      case False
      with q mouse_other(1) [OF False, of env clk evs s]
      have "user_profiles s u = Some q" by (simp add: cop Mouse)
      then show ?thesis by (rule device_keysD [OF dk])
    qed
  next
    case (Device uid di)
    show ?thesis
    proof (cases "u = uid")
      case True
      obtain p s1 where ens: "ensure_profile env clk uid s = (p, s1)"
        by (cases "ensure_profile env clk uid s")
      note k = device_keys_profile [OF dk ens]
      from device_exact [OF ens k, of di] q
      have "q = p\<lparr>device_patterns := device_patterns p ++ di\<rparr>"
        by (simp add: cop Device True set_profile_def)
      with k show ?thesis by (auto simp: map_add_def split: option.splits)
    next
      case False
      with q device_other(1) [OF False, of env clk di s]
      have "user_profiles s u = Some q" by (simp add: cop Device)
      then show ?thesis by (rule device_keysD [OF dk])
    qed
  next
    case (Score uid)
    with q have "user_profiles s u = Some q" by (simp add: cop)
    then show ?thesis by (rule device_keysD [OF dk])
  qed
qed

lemma run_device_keys:
  "device_keys s \<Longrightarrow> well_formed s \<Longrightarrow> device_keys (run env ops s)"
  unfolding run_def
  by (induction ops arbitrary: s) (simp_all add: step_device_keys step_well_formed)

lemma init_device_keys: "device_keys init_manager"
  by (simp add: device_keys_def init_manager_def)

section \<open>Tagged events\<close>

lemma tag_events_elem:
  assumes "e \<in> set (tag_events tag clk evs)"
  shows "e ''type'' = Some (PStr tag)"
    and "\<exists>k. e ''timestamp'' = Some (PStr (now_iso clk k))"
proof -
  from assms have "e \<in> (\<lambda>(i, e). tag_event tag clk i e) ` set (enumerate 0 evs)"
    by (simp add: tag_events_def)
  then obtain x where "e = (\<lambda>(i, e). tag_event tag clk i e) x"
    by (rule imageE)
  then have e: "e = tag_event tag clk (fst x) (snd x)"
    by (simp add: case_prod_beta)
  show "e ''type'' = Some (PStr tag)"
    by (simp add: e tag_event_def)
  have "e ''timestamp'' = Some (PStr (now_iso clk (fst x + 2)))"
    by (simp add: e tag_event_def)
  then show "\<exists>k. e ''timestamp'' = Some (PStr (now_iso clk k))"
    by (rule exI)
qed

lemma length_tag_events [simp]: "length (tag_events tag clk evs) = length evs"
  by (simp add: tag_events_def)

lemma buffered_by_tagged:
  assumes "e \<in> set (buffered_by clk op u)"
  shows "e ''type'' = Some (PStr ''keystroke'') \<or> e ''type'' = Some (PStr ''mouse'')"
proof (cases op)
  case (Keystroke uid evs)
  with assms have "e \<in> set (tag_events ''keystroke'' clk evs)"
    by (cases "u = uid"; cases "extract_keystroke_features clk evs") simp_all
  then show ?thesis by (simp add: tag_events_elem(1))
next
  case (Mouse uid evs)
  with assms have "e \<in> set (tag_events ''mouse'' clk evs)"
    by (cases "u = uid") simp_all
  then show ?thesis by (simp add: tag_events_elem(1))
next
  case (Device uid di)
  with assms show ?thesis by simp
next
  case (Score uid)
  with assms show ?thesis by simp
qed

lemma set_last_n: "set (last_n n xs) \<subseteq> set xs"
  by (simp add: last_n_def set_drop_subset)

lemma step_tagged:
  assumes t: "tagged s" and wf: "well_formed s"
  shows "tagged (step env cop s)"
proof -
  obtain clk op where cop: "cop = (clk, op)" by (cases cop)
  show ?thesis
    unfolding tagged_def
  proof (intro allI ballI)
    fix u e
    assume "e \<in> set (buffer_of (step env cop s) u)"
    then have "e \<in> set (last_n buffer_size (buffer_of s u @ buffered_by clk op u))"
      by (simp add: cop step_effect(1) [OF wf])
    then have "e \<in> set (buffer_of s u @ buffered_by clk op u)"
      by (rule subsetD [OF set_last_n])
    then have "e \<in> set (buffer_of s u) \<or> e \<in> set (buffered_by clk op u)"
      by simp
    then show "e ''type'' = Some (PStr ''keystroke'') \<or> e ''type'' = Some (PStr ''mouse'')"
    proof
      assume "e \<in> set (buffer_of s u)"
      with t show ?thesis unfolding tagged_def by simp
    next
      assume "e \<in> set (buffered_by clk op u)"
      then show ?thesis by (rule buffered_by_tagged)
    qed
  qed
qed

lemma run_tagged: "tagged s \<Longrightarrow> well_formed s \<Longrightarrow> tagged (run env ops s)"
  unfolding run_def
  by (induction ops arbitrary: s) (simp_all add: step_tagged step_well_formed)

lemma init_tagged: "tagged init_manager"
  by (simp add: tagged_def init_manager_def buffer_of_def)

lemma keystroke_returned_events:
  assumes wf: "well_formed s"
  shows "snd (snd (process_keystroke_data env clk uid evs s)) =
     (case extract_keystroke_features clk evs of
        Inl e \<Rightarrow> evs
      | Inr f \<Rightarrow> tag_events ''keystroke'' clk evs)"
proof -
  obtain p s1 where ens: "ensure_profile env clk uid s = (p, s1)"
    by (cases "ensure_profile env clk uid s")
  note e = ensure_profile_wf [OF ens wf]
  from e(5) show ?thesis
    by (simp add: process_keystroke_data_def ens Let_def set_profile_def split: sum.splits)
qed

lemma mouse_returned_events:
  assumes wf: "well_formed s"
  shows "snd (snd (process_mouse_data env clk uid evs s)) = tag_events ''mouse'' clk evs"
proof -
  obtain p s1 where ens: "ensure_profile env clk uid s = (p, s1)"
    by (cases "ensure_profile env clk uid s")
  note e = ensure_profile_wf [OF ens wf]
  from e(5) show ?thesis
    by (simp add: process_mouse_data_def ens Let_def set_profile_def)
qed

section \<open>Training and the baseline transition\<close>

lemma train_user_model_other:
  assumes "u \<noteq> uid"
  shows "anomaly_models (train_user_model env uid s) u = anomaly_models s u"
    and "scalers (train_user_model env uid s) u = scalers s u"
  using assms
  by (simp_all add: train_user_model_def Let_def split: option.splits estimator.splits)

lemma train_user_model_keeps_models:
  assumes "anomaly_models s uid = None \<or> anomaly_models s uid = Some (fresh_estimator env)"
  shows "anomaly_models (train_user_model env uid s) = anomaly_models s"
  using assms
  by (auto simp add: train_user_model_def Let_def fresh_estimator_def
      split: option.splits estimator.splits)

lemma train_user_model_scaler:
  assumes "user_profiles s uid = Some p"
    and "scalers s uid = Some (fresh_estimator env)"
  shows "scalers (train_user_model env uid s) uid = Some (fitted_by env p)"
  using assms
  by (simp add: train_user_model_def Let_def fresh_estimator_def fitted_by_def
      split: option.splits estimator.splits)

lemma ensure_profile_models_other:
  assumes "ensure_profile env clk uid s = (p, s1)" "u \<noteq> uid"
  shows "anomaly_models s1 u = anomaly_models s u" "scalers s1 u = scalers s u"
  using assms
  by (auto simp add: ensure_profile_def create_user_profile_def Let_def split: option.splits)

lemma ensure_profile_models_new:
  assumes "ensure_profile env clk uid s = (p, s1)" "user_profiles s uid = None"
  shows "anomaly_models s1 uid = Some (fresh_estimator env)"
    "scalers s1 uid = Some (fresh_estimator env)" "\<not> baseline_established p"
  using assms
  by (auto simp add: ensure_profile_def create_user_profile_def Let_def fresh_estimator_def
      new_profile_def)

lemma ensure_profile_old:
  assumes "ensure_profile env clk uid s = (p, s1)" "user_profiles s uid = Some q"
  shows "s1 = s" "p = q"
  using assms by (simp_all add: ensure_profile_def)

lemma untrained_before_baselineD:
  assumes "untrained_before_baseline env s"
  shows "anomaly_models s u = None \<or> anomaly_models s u = Some (fresh_estimator env)"
    and "user_profiles s u = Some q \<Longrightarrow> anomaly_models s u = Some (fresh_estimator env)"
    and "user_profiles s u = Some q \<Longrightarrow> \<not> baseline_established q \<Longrightarrow>
           scalers s u = Some (fresh_estimator env)"
proof -
  from assms have a: "(anomaly_models s u = None \<or> anomaly_models s u = Some (fresh_estimator env))
          \<and> (case user_profiles s u of
                None \<Rightarrow> True
              | Some p \<Rightarrow> anomaly_models s u = Some (fresh_estimator env)
                         \<and> (baseline_established p
                              \<or> scalers s u = Some (fresh_estimator env)))"
    unfolding untrained_before_baseline_def by (rule spec)
  from a show "anomaly_models s u = None \<or> anomaly_models s u = Some (fresh_estimator env)"
    by simp
  from a show "user_profiles s u = Some q \<Longrightarrow> anomaly_models s u = Some (fresh_estimator env)"
    by simp
  from a show "user_profiles s u = Some q \<Longrightarrow> \<not> baseline_established q \<Longrightarrow>
           scalers s u = Some (fresh_estimator env)"
    by simp
qed

lemma untrained_before_baselineI:
  assumes "\<And>u. anomaly_models s u = None \<or> anomaly_models s u = Some (fresh_estimator env)"
    and "\<And>u q. user_profiles s u = Some q \<Longrightarrow> anomaly_models s u = Some (fresh_estimator env)"
    and "\<And>u q. user_profiles s u = Some q \<Longrightarrow> \<not> baseline_established q \<Longrightarrow>
           scalers s u = Some (fresh_estimator env)"
  shows "untrained_before_baseline env s"
  unfolding untrained_before_baseline_def
proof (intro allI conjI)
  fix u
  show "anomaly_models s u = None \<or> anomaly_models s u = Some (fresh_estimator env)"
    by (rule assms(1))
  show "case user_profiles s u of
          None \<Rightarrow> True
        | Some p \<Rightarrow> anomaly_models s u = Some (fresh_estimator env)
                   \<and> (baseline_established p \<or> scalers s u = Some (fresh_estimator env))"
  proof (cases "user_profiles s u")
    case None
    then show ?thesis by simp
  next
    case (Some q)
    with assms(2) [OF Some] assms(3) [OF Some] show ?thesis by auto
  qed
qed

lemma ensure_profile_untrained:
  assumes ens: "ensure_profile env clk uid s = (p, s1)"
    and inv: "untrained_before_baseline env s"
  shows "anomaly_models s1 uid = Some (fresh_estimator env)"
    and "\<not> baseline_established p \<Longrightarrow> scalers s1 uid = Some (fresh_estimator env)"
    and "anomaly_models s1 u = None \<or> anomaly_models s1 u = Some (fresh_estimator env)"
proof -
  show m: "anomaly_models s1 uid = Some (fresh_estimator env)"
  proof (cases "user_profiles s uid")
    case None
    with ensure_profile_models_new [OF ens] show ?thesis by simp
  next
    case (Some q)
    with ensure_profile_old [OF ens Some] untrained_before_baselineD(2) [OF inv Some]
    show ?thesis by simp
  qed
  show "\<not> baseline_established p \<Longrightarrow> scalers s1 uid = Some (fresh_estimator env)"
  proof (cases "user_profiles s uid")
    case None
    with ensure_profile_models_new [OF ens] show ?thesis by simp
  next
    case (Some q)
    assume "\<not> baseline_established p"
    with ensure_profile_old [OF ens Some] untrained_before_baselineD(3) [OF inv Some]
    show ?thesis by simp
  qed
  show "anomaly_models s1 u = None \<or> anomaly_models s1 u = Some (fresh_estimator env)"
  proof (cases "u = uid")
    case True
    with m show ?thesis by simp
  next
    case False
    with ensure_profile_models_other(1) [OF ens False] untrained_before_baselineD(1) [OF inv, of u]
    show ?thesis by simp
  qed
qed

lemma keystroke_models_other:
  assumes "u \<noteq> uid"
  shows "anomaly_models (fst (process_keystroke_data env clk uid evs s)) u = anomaly_models s u"
    and "scalers (fst (process_keystroke_data env clk uid evs s)) u = scalers s u"
proof -
  obtain p s1 where ens: "ensure_profile env clk uid s = (p, s1)"
    by (cases "ensure_profile env clk uid s")
  from ensure_profile_models_other [OF ens assms]
  show "anomaly_models (fst (process_keystroke_data env clk uid evs s)) u = anomaly_models s u"
    and "scalers (fst (process_keystroke_data env clk uid evs s)) u = scalers s u"
    using assms
    by (simp_all add: process_keystroke_data_def ens Let_def set_profile_def
        train_user_model_other split: sum.splits option.splits)
qed

lemma keystroke_models_kept:
  assumes ens: "ensure_profile env clk uid s = (p, s1)"
    and no: "baseline_established p \<or> \<not> sufficient_after clk evs p"
  shows "anomaly_models (fst (process_keystroke_data env clk uid evs s)) = anomaly_models s1"
    and "scalers (fst (process_keystroke_data env clk uid evs s)) = scalers s1"
  using no
  by (auto simp add: process_keystroke_data_def ens Let_def set_profile_def sufficient_after_def
      split: sum.splits option.splits)

lemma keystroke_models_trained:
  assumes ens: "ensure_profile env clk uid s = (p, s1)"
    and b: "behavior_buffer s1 uid = Some buf"
    and nb: "\<not> baseline_established p"
    and suff: "sufficient_after clk evs p"
    and m: "anomaly_models s1 uid = Some (fresh_estimator env)"
    and sc: "scalers s1 uid = Some (fresh_estimator env)"
  shows "anomaly_models (fst (process_keystroke_data env clk uid evs s)) = anomaly_models s1"
    and "scalers (fst (process_keystroke_data env clk uid evs s)) uid
           = Some (fitted_by env (keystroke_profile_after clk evs p))"
proof -
  from suff obtain f where ex: "extract_keystroke_features clk evs = Inr f"
    and chk: "check_baseline_sufficient (update_keystroke_profile p f)"
    by (auto simp: sufficient_after_def split: sum.splits)
  let ?q = "update_keystroke_profile p f"
  let ?S = "set_profile uid (?q\<lparr>baseline_established := True\<rparr>)
      ((set_profile uid ?q s1)\<lparr>behavior_buffer := (behavior_buffer (set_profile uid ?q s1))
          (uid \<mapsto> maintain_buffer (buf @ tag_events ''keystroke'' clk evs))\<rparr>)"
  have s': "fst (process_keystroke_data env clk uid evs s) = train_user_model env uid ?S"
    using b nb chk
    by (simp add: process_keystroke_data_def ens ex Let_def set_profile_def)
  have after: "keystroke_profile_after clk evs p = ?q\<lparr>baseline_established := True\<rparr>"
    using nb chk by (simp add: keystroke_profile_after_def ex Let_def)
  have 1: "user_profiles ?S uid = Some (?q\<lparr>baseline_established := True\<rparr>)"
    by (simp add: set_profile_def)
  have 2: "anomaly_models ?S = anomaly_models s1"
    by (simp add: set_profile_def)
  have 3: "scalers ?S uid = Some (fresh_estimator env)"
    using sc by (simp add: set_profile_def)
  have 4: "anomaly_models ?S uid = None \<or> anomaly_models ?S uid = Some (fresh_estimator env)"
    using m by (simp add: 2)
  show "anomaly_models (fst (process_keystroke_data env clk uid evs s)) = anomaly_models s1"
    unfolding s' using train_user_model_keeps_models [OF 4] by (simp only: 2)
  show "scalers (fst (process_keystroke_data env clk uid evs s)) uid
           = Some (fitted_by env (keystroke_profile_after clk evs p))"
    unfolding s' after by (rule train_user_model_scaler [OF 1 3])
qed

lemma keystroke_profile_after_flag:
  "baseline_established (keystroke_profile_after clk evs p)
     = (baseline_established p \<or> sufficient_after clk evs p)"
  by (auto simp add: keystroke_profile_after_def sufficient_after_def Let_def split: sum.splits)

lemma mouse_models:
  "anomaly_models (fst (process_mouse_data env clk uid evs s))
     = anomaly_models (snd (ensure_profile env clk uid s))"
  "scalers (fst (process_mouse_data env clk uid evs s))
     = scalers (snd (ensure_profile env clk uid s))"
  by (simp_all add: process_mouse_data_def Let_def set_profile_def
      split: prod.splits option.splits)

lemma device_models:
  "anomaly_models (fst (process_device_data env clk uid di s))
     = anomaly_models (snd (ensure_profile env clk uid s))"
  "scalers (fst (process_device_data env clk uid di s))
     = scalers (snd (ensure_profile env clk uid s))"
  by (simp_all add: process_device_data_def Let_def set_profile_def
      split: prod.splits sum.splits)

lemma ensure_profile_established:
  assumes "ensure_profile env clk uid s = (p, s1)"
  shows "established s uid = baseline_established p"
proof (cases "user_profiles s uid")
  case None
  with ensure_profile_models_new(3) [OF assms] show ?thesis
    by (simp add: established_def)
next
  case (Some q)
  with ensure_profile_old(2) [OF assms Some] show ?thesis
    by (simp add: established_def)
qed

lemma step_untrained:
  assumes inv: "untrained_before_baseline env s" and wf: "well_formed s"
  shows "untrained_before_baseline env (step env cop s)"
proof -
  obtain clk op where cop: "cop = (clk, op)" by (cases cop)
  show ?thesis
  proof (cases op)
    case (Keystroke uid evs)
    obtain p s1 where ens: "ensure_profile env clk uid s = (p, s1)"
      by (cases "ensure_profile env clk uid s")
    note e = ensure_profile_wf [OF ens wf]
    note f = ensure_profile_untrained [OF ens inv]
    have lb: "length (buffer_of s uid) \<le> buffer_size"
      using well_formedD(2) [OF wf, of uid] .
    let ?s' = "fst (process_keystroke_data env clk uid evs s)"
    have am: "anomaly_models ?s' = anomaly_models s1"
    proof (cases "baseline_established p \<or> \<not> sufficient_after clk evs p")
      case True
      then show ?thesis by (rule keystroke_models_kept(1) [OF ens])
    next
      case False
      then have nb: "\<not> baseline_established p" and suff: "sufficient_after clk evs p"
        by simp_all
      show ?thesis
        by (rule keystroke_models_trained(1) [OF ens e(5) nb suff f(1) f(2) [OF nb]])
    qed
    have up: "user_profiles ?s' uid = Some (keystroke_profile_after clk evs p)"
      by (rule keystroke_result(1) [OF ens e(4) e(5) lb])
    have "untrained_before_baseline env ?s'"
    proof (rule untrained_before_baselineI)
      fix u
      show "anomaly_models ?s' u = None \<or> anomaly_models ?s' u = Some (fresh_estimator env)"
        using f(3) [of u] by (simp add: am)
    next
      fix u q
      assume q: "user_profiles ?s' u = Some q"
      show "anomaly_models ?s' u = Some (fresh_estimator env)"
      proof (cases "u = uid")
        case True
        with f(1) show ?thesis by (simp add: am)
      next
        case False
        with q keystroke_other(1) [OF False, of env clk evs s]
        have "user_profiles s u = Some q" by simp
        from untrained_before_baselineD(2) [OF inv this] show ?thesis
          by (simp add: keystroke_models_other(1) [OF False])
      qed
    next
      fix u q
      assume q: "user_profiles ?s' u = Some q" and nq: "\<not> baseline_established q"
      show "scalers ?s' u = Some (fresh_estimator env)"
      proof (cases "u = uid")
        case True
        with q up have "q = keystroke_profile_after clk evs p" by simp
        with nq have no: "\<not> baseline_established p" "\<not> sufficient_after clk evs p"
          by (simp_all add: keystroke_profile_after_flag)
        from no(2) have "baseline_established p \<or> \<not> sufficient_after clk evs p" by simp
        note k = keystroke_models_kept(2) [OF ens this]
        from f(2) [OF no(1)] show ?thesis by (simp add: True k)
      next
        case False
        with q keystroke_other(1) [OF False, of env clk evs s]
        have "user_profiles s u = Some q" by simp
        from untrained_before_baselineD(3) [OF inv this nq] show ?thesis
          by (simp add: keystroke_models_other(2) [OF False])
      qed
    qed
    then show ?thesis by (simp add: cop Keystroke)
  next
    case (Mouse uid evs)
    obtain p s1 where ens: "ensure_profile env clk uid s = (p, s1)"
      by (cases "ensure_profile env clk uid s")
    note e = ensure_profile_wf [OF ens wf]
    note f = ensure_profile_untrained [OF ens inv]
    let ?s' = "fst (process_mouse_data env clk uid evs s)"
    have am: "anomaly_models ?s' = anomaly_models s1" and sc: "scalers ?s' = scalers s1"
      by (simp_all add: mouse_models ens)
    have up: "user_profiles ?s' uid = Some (update_mouse_profile p (extract_mouse_features evs))"
      by (rule mouse_result(1) [OF ens e(4) e(5)])
    have "untrained_before_baseline env ?s'"
    proof (rule untrained_before_baselineI)
      fix u
      show "anomaly_models ?s' u = None \<or> anomaly_models ?s' u = Some (fresh_estimator env)"
        using f(3) [of u] by (simp add: am)
    next
      fix u q
      assume q: "user_profiles ?s' u = Some q"
      show "anomaly_models ?s' u = Some (fresh_estimator env)"
      proof (cases "u = uid")
        case True
        with f(1) show ?thesis by (simp add: am)
      next
        case False
        with q mouse_other(1) [OF False, of env clk evs s]
        have "user_profiles s u = Some q" by simp
        from untrained_before_baselineD(2) [OF inv this] show ?thesis
          by (simp add: am ensure_profile_models_other(1) [OF ens False])
      qed
    next
      fix u q
      assume q: "user_profiles ?s' u = Some q" and nq: "\<not> baseline_established q"
      show "scalers ?s' u = Some (fresh_estimator env)"
      proof (cases "u = uid")
        case True
        with q up have "q = update_mouse_profile p (extract_mouse_features evs)" by simp
        with nq have no: "\<not> baseline_established p" by simp
        from f(2) [OF no] show ?thesis by (simp add: True sc)
      next
        case False
        with q mouse_other(1) [OF False, of env clk evs s]
        have "user_profiles s u = Some q" by simp
        from untrained_before_baselineD(3) [OF inv this nq] show ?thesis
          by (simp add: sc ensure_profile_models_other(2) [OF ens False])
      qed
    qed
    then show ?thesis by (simp add: cop Mouse)
  next
    case (Device uid di)
    obtain p s1 where ens: "ensure_profile env clk uid s = (p, s1)"
      by (cases "ensure_profile env clk uid s")
    note e = ensure_profile_wf [OF ens wf]
    note f = ensure_profile_untrained [OF ens inv]
    let ?s' = "fst (process_device_data env clk uid di s)"
    have am: "anomaly_models ?s' = anomaly_models s1" and sc: "scalers ?s' = scalers s1"
      by (simp_all add: device_models ens)
    have "untrained_before_baseline env ?s'"
    proof (rule untrained_before_baselineI)
      fix u
      show "anomaly_models ?s' u = None \<or> anomaly_models ?s' u = Some (fresh_estimator env)"
        using f(3) [of u] by (simp add: am)
    next
      fix u q
      assume q: "user_profiles ?s' u = Some q"
      show "anomaly_models ?s' u = Some (fresh_estimator env)"
      proof (cases "u = uid")
        case True
        with f(1) show ?thesis by (simp add: am)
      next
        case False
        with q device_other(1) [OF False, of env clk di s]
        have "user_profiles s u = Some q" by simp
        from untrained_before_baselineD(2) [OF inv this] show ?thesis
          by (simp add: am ensure_profile_models_other(1) [OF ens False])
      qed
    next
      fix u q
      assume q: "user_profiles ?s' u = Some q" and nq: "\<not> baseline_established q"
      show "scalers ?s' u = Some (fresh_estimator env)"
      proof (cases "u = uid")
        case True
        from device_result(1) [OF ens e(4), of di] q True
        have "baseline_established q = baseline_established p" by auto
        with nq have no: "\<not> baseline_established p" by simp
        from f(2) [OF no] show ?thesis by (simp add: True sc)
      next
        case False
        with q device_other(1) [OF False, of env clk di s]
        have "user_profiles s u = Some q" by simp
        from untrained_before_baselineD(3) [OF inv this nq] show ?thesis
          by (simp add: sc ensure_profile_models_other(2) [OF ens False])
      qed
    qed
    then show ?thesis by (simp add: cop Device)
  next
    case (Score uid)
    with inv show ?thesis by (simp add: cop)
  qed
qed

lemma run_untrained:
  "untrained_before_baseline env s \<Longrightarrow> well_formed s \<Longrightarrow>
   untrained_before_baseline env (run env ops s)"
  unfolding run_def
  by (induction ops arbitrary: s) (simp_all add: step_untrained step_well_formed)

lemma init_untrained: "untrained_before_baseline env init_manager"
  by (simp add: untrained_before_baseline_def init_manager_def)

text \<open>No reachable state holds a fitted model, so both scorers only ever fall back.\<close>

lemma scorers_only_fall_back:
  "detect_keystroke_anomalies env (run env ops init_manager) uid kf
     = (if SKLEARN_AVAILABLE env then 0 else 0.1) \<and>
   detect_mouse_anomalies env (run env ops init_manager) uid mf
     = (if SKLEARN_AVAILABLE env then 0 else 0.1)"
proof -
  have inv: "untrained_before_baseline env (run env ops init_manager)"
    by (rule run_untrained [OF init_untrained init_well_formed])
  from untrained_before_baselineD(1) [OF inv, of uid] show ?thesis
    by (auto simp add: detect_keystroke_anomalies_def detect_mouse_anomalies_def dict_get_def
        fresh_estimator_def split: option.splits estimator.splits)
qed

section \<open>Claims\<close>

text \<open>
  C1. \<^verbatim>\<open>create_user_profile\<close> initialises \<open>baseline_established\<close> to false, and once a
  user's flag is true, no sequence of \<^verbatim>\<open>process_keystroke_data\<close>, \<^verbatim>\<open>process_mouse_data\<close>,
  \<^verbatim>\<open>process_device_data\<close> and \<^verbatim>\<open>get_security_score\<close> calls, for any users and from any
  state, sets it back to false.
\<close>

theorem baseline_never_reverts:
  "\<not> baseline_established (fst (create_user_profile env clk uid s)) \<and>
   \<not> established (snd (create_user_profile env clk uid s)) uid \<and>
   (established s u \<longrightarrow> established (run env ops s) u)"
  by (simp add: create_user_profile_def Let_def new_profile_def
      established_def [of "_\<lparr>scalers := _\<rparr>"] run_established)

theorem baseline_never_reverts_witness:
  "established typing_manager ''alice'' \<and>
   established (run example_backend
      [(example_clock, Mouse ''alice'' [click]), (example_clock, Keystroke ''alice'' [keydown 1]),
       (example_clock, Device ''alice'' Map.empty), (example_clock, Score ''alice'')]
      typing_manager) ''alice''"
proof -
  have h: "established typing_manager ''alice''"
    by code_simp
  with baseline_never_reverts [where s = typing_manager and u = "''alice''"]
  show ?thesis by simp
qed

text \<open>
  C7. After every call that follows any sequence of calls on a fresh manager, each user's
  behaviour buffer holds at most 50 events and their keystroke interval history at most
  1000 intervals; the buffer is the last 50 of the old buffer followed by the events the
  call submitted, and the history the last 1000 of the old history followed by the
  intervals the call recorded: only the oldest entries are dropped, and the order is kept.
\<close>

theorem buffers_bounded_fifo:
  "(let s = run env ops init_manager; s' = step env (clk, op) s
    in length (buffer_of s' u) \<le> 50 \<and> length (intervals_of_user s' u) \<le> 1000 \<and>
       buffer_of s' u = last_n 50 (buffer_of s u @ buffered_by clk op u) \<and>
       intervals_of_user s' u = last_n 1000 (intervals_of_user s u @ recorded_by clk op u))"
proof -
  have wf: "well_formed (run env ops init_manager)"
    by (rule run_well_formed [OF init_well_formed])
  show ?thesis
    using step_effect(1,2) [OF wf, of env clk op u]
    by (simp add: Let_def length_last_n buffer_size_def)
qed

theorem buffers_bounded_fifo_witness:
  "(let s = run example_backend [(example_clock, Mouse ''alice'' [click])] init_manager;
       s' = step example_backend (example_clock, Keystroke ''alice'' [keydown 1, keydown 3]) s
    in length (buffer_of s' ''alice'') \<le> 50 \<and> length (intervals_of_user s' ''alice'') \<le> 1000 \<and>
       buffer_of s' ''alice'' = last_n 50 (buffer_of s ''alice''
          @ tag_events ''keystroke'' example_clock [keydown 1, keydown 3]) \<and>
       intervals_of_user s' ''alice'' = last_n 1000 (intervals_of_user s ''alice'' @ [2]))"
proof -
  have "extract_keystroke_features example_clock [keydown 1, keydown 3]
     = Inr (Some \<lparr>typing_speed = 1, kf_intervals = [2], error_count = 0, special_key_usage = 0\<rparr>)"
    by (simp add: extract_keystroke_features_def keydown_times_def keydown_def enumerate_eq_zip
        Let_def)
  with buffers_bounded_fifo [where env = example_backend
      and ops = "[(example_clock, Mouse ''alice'' [click])]" and clk = example_clock
      and op = "Keystroke ''alice'' [keydown 1, keydown 3]" and u = "''alice''"]
  show ?thesis by (simp add: Let_def length_last_n)
qed

text \<open>
  C6. \<^verbatim>\<open>get_security_score\<close> never raises. For a user without a profile it returns score 0,
  risk \<^verbatim>\<open>unknown\<close>, count 0 and baseline false. Otherwise the score is
  \<open>max 0 (min 100 (100 - anomalies_count * 10))\<close>, the risk level is \<^verbatim>\<open>low\<close> for count 0,
  \<^verbatim>\<open>medium\<close> for 1 or 2 and \<^verbatim>\<open>high\<close> above 2, the count is the number of buffer channels
  whose re-scored features exceed 0.5, and the flag is the profile's.
\<close>

theorem security_score_formula:
  "\<exists>a. get_security_score env clk uid s = Inr a \<and>
     (case user_profiles s uid of
        None \<Rightarrow> a = \<lparr>sa_user_id = uid, security_score = 0, risk_level = ''unknown'',
                      anomalies_count = 0, sa_baseline_established = False,
                      sa_timestamp = None\<rparr>
      | Some p \<Rightarrow>
          security_score a = max 0 (min 100 (100 - anomalies_count a * 10)) \<and>
          risk_level a = (if anomalies_count a = 0 then ''low''
                          else if anomalies_count a = 1 \<or> anomalies_count a = 2 then ''medium''
                          else ''high'') \<and>
          (anomalies_count a > 2) = (risk_level a = ''high'') \<and>
          anomalies_count a = channel_anomalies env s uid \<and>
          sa_baseline_established a = baseline_established p)"
  using channel_anomalies_range [of env s uid]
  by (auto simp add: get_security_score_eq assessment_of_def Let_def split: option.splits)

theorem security_score_formula_witness:
  "(\<exists>a. get_security_score example_backend example_clock ''bob'' typed_manager = Inr a \<and>
      a = \<lparr>sa_user_id = ''bob'', security_score = 0, risk_level = ''unknown'',
            anomalies_count = 0, sa_baseline_established = False, sa_timestamp = None\<rparr>) \<and>
   (\<exists>a. get_security_score example_backend example_clock ''alice'' typed_manager = Inr a \<and>
      security_score a = max 0 (min 100 (100 - anomalies_count a * 10)) \<and>
      (anomalies_count a > 2) = (risk_level a = ''high'') \<and>
      anomalies_count a = channel_anomalies example_backend typed_manager ''alice'')"
proof -
  have bob: "user_profiles typed_manager ''bob'' = None"
    by code_simp
  have "user_profiles typed_manager ''alice'' \<noteq> None"
    by code_simp
  then obtain p where alice: "user_profiles typed_manager ''alice'' = Some p"
    by blast
  from security_score_formula [where env = example_backend and clk = example_clock
      and uid = "''bob''" and s = typed_manager]
    security_score_formula [where env = example_backend and clk = example_clock
      and uid = "''alice''" and s = typed_manager]
  show ?thesis
    unfolding bob alice option.case by blast
qed

text \<open>
  C9, as amended. Two calls of \<^verbatim>\<open>get_security_score\<close> on the same state, at any two clock
  readings, both return a record, and the records agree on user, score, risk level,
  anomaly count and baseline flag. The timestamp of each record is the time of its own
  call (and absent for a user without a profile).
\<close>

theorem assessment_idempotent:
  "\<exists>a1 a2. get_security_score env clk1 uid s = Inr a1 \<and>
      get_security_score env clk2 uid s = Inr a2 \<and>
      sa_user_id a1 = sa_user_id a2 \<and> security_score a1 = security_score a2 \<and>
      risk_level a1 = risk_level a2 \<and> anomalies_count a1 = anomalies_count a2 \<and>
      sa_baseline_established a1 = sa_baseline_established a2 \<and>
      sa_timestamp a1 = (if user_profiles s uid = None then None else Some (now_iso clk1 0)) \<and>
      sa_timestamp a2 = (if user_profiles s uid = None then None else Some (now_iso clk2 0))"
  by (simp add: get_security_score_eq assessment_of_def Let_def split: option.splits)

theorem assessment_idempotent_witness:
  "\<exists>a1 a2. get_security_score example_backend example_clock ''alice'' typed_manager = Inr a1 \<and>
      get_security_score example_backend later_clock ''alice'' typed_manager = Inr a2 \<and>
      sa_user_id a1 = sa_user_id a2 \<and> security_score a1 = security_score a2 \<and>
      risk_level a1 = risk_level a2 \<and> anomalies_count a1 = anomalies_count a2 \<and>
      sa_baseline_established a1 = sa_baseline_established a2 \<and>
      sa_timestamp a1 = Some ''2024-01-01T00:00:00'' \<and>
      sa_timestamp a2 = Some ''2024-01-01T00:00:05''"
proof -
  have "user_profiles typed_manager ''alice'' \<noteq> None"
    by code_simp
  with assessment_idempotent [where env = example_backend and ?clk1.0 = example_clock
      and ?clk2.0 = later_clock and uid = "''alice''" and s = typed_manager]
  show ?thesis
    by (simp add: example_clock_def later_clock_def)
qed

text \<open>
  C9 as stated fails: the two records of a profiled user differ when the clock has moved
  between the calls.
\<close>

theorem assessment_timestamp_counterexample:
  "get_security_score example_backend example_clock ''alice'' typed_manager
     \<noteq> get_security_score example_backend later_clock ''alice'' typed_manager"
  by code_simp

text \<open>
  C4, as amended. Neither scoring operation raises. When the backend is unavailable both
  return the sentinel 0.1; when it is available and the user has no trained model or
  scaler (no entry, \<^verbatim>\<open>None\<close>, or not fitted) both return 0.0.
\<close>

theorem scoring_fallbacks:
  "(\<not> SKLEARN_AVAILABLE env \<longrightarrow>
      detect_keystroke_anomalies env s uid kf = 0.1 \<and> detect_mouse_anomalies env s uid mf = 0.1) \<and>
   (SKLEARN_AVAILABLE env \<and> untrained s uid \<longrightarrow>
      detect_keystroke_anomalies env s uid kf = 0 \<and> detect_mouse_anomalies env s uid mf = 0)"
  by (auto simp add: detect_keystroke_anomalies_def detect_mouse_anomalies_def untrained_def
      Let_def split: option.splits estimator.splits)

theorem scoring_fallbacks_witness:
  "\<not> SKLEARN_AVAILABLE offline_backend \<and>
   detect_keystroke_anomalies offline_backend typed_manager ''alice'' (Some zero_keystroke_features) = 0.1 \<and>
   detect_mouse_anomalies offline_backend typed_manager ''alice'' (Some zero_mouse_features) = 0.1 \<and>
   SKLEARN_AVAILABLE example_backend \<and> untrained typed_manager ''alice'' \<and>
   detect_keystroke_anomalies example_backend typed_manager ''alice'' (Some zero_keystroke_features) = 0 \<and>
   detect_mouse_anomalies example_backend typed_manager ''alice'' (Some zero_mouse_features) = 0"
proof -
  have a: "\<not> SKLEARN_AVAILABLE offline_backend"
    by (simp add: offline_backend_def)
  have b: "SKLEARN_AVAILABLE example_backend"
    by (simp add: example_backend_def)
  have c: "untrained typed_manager ''alice''"
    by code_simp
  from a b c
    scoring_fallbacks [where env = offline_backend and s = typed_manager and uid = "''alice''"
      and kf = "Some zero_keystroke_features" and mf = "Some zero_mouse_features"]
    scoring_fallbacks [where env = example_backend and s = typed_manager and uid = "''alice''"
      and kf = "Some zero_keystroke_features" and mf = "Some zero_mouse_features"]
  show ?thesis by simp
qed

text \<open>
  C4 as stated fails: with the backend available, a user without a model entry, and a
  user whose model was created but never fitted, are scored 0.0, not 0.1.
\<close>

theorem missing_model_counterexample:
  "SKLEARN_AVAILABLE example_backend \<and>
   dict_get (anomaly_models init_manager) ''alice'' = None \<and>
   detect_keystroke_anomalies example_backend init_manager ''alice'' (Some zero_keystroke_features) = 0 \<and>
   detect_mouse_anomalies example_backend init_manager ''alice'' (Some zero_mouse_features) = 0 \<and>
   detect_keystroke_anomalies example_backend init_manager ''alice'' (Some zero_keystroke_features)
     \<noteq> 0.1 \<and>
   dict_get (anomaly_models typed_manager) ''alice'' = Some Unfitted \<and>
   detect_keystroke_anomalies example_backend typed_manager ''alice'' (Some zero_keystroke_features) = 0 \<and>
   detect_mouse_anomalies example_backend typed_manager ''alice'' (Some zero_mouse_features) = 0"
  by code_simp

text \<open>
  C8, as amended. In every state reached from a fresh manager, \<^verbatim>\<open>process_device_data\<close>
  completes without error and reports, in the order resolution, browser, IP address, one
  entry (severity medium, low, high) for each of the three fields whose stored value is
  true and differs from the snapshot's value (\<^verbatim>\<open>None\<close> for a field the snapshot
  omits); a field whose stored value is \<^verbatim>\<open>None\<close> yields no entry; afterwards the stored
  device fields are the old ones overwritten by the entries of the snapshot.
\<close>

theorem device_anomalies_per_field:
  "(let s = run env ops init_manager;
        p = fst (ensure_profile env clk uid s);
        dp = device_patterns p;
        out = process_device_data env clk uid device_info s
    in dev_anomalies_detected (snd out) =
         field_anomaly dp device_info ''screen_resolution''
           (DeviceAnomaly ''device'' ''Screen resolution changed'' ''medium'')
         @ field_anomaly dp device_info ''browser_info''
           (DeviceAnomaly ''device'' ''Browser information changed'' ''low'')
         @ field_anomaly dp device_info ''ip_address''
           (DeviceAnomaly ''device'' ''IP address changed - potential location change'' ''high'')
       \<and> dev_error (snd out) = None
       \<and> user_profiles (fst out) uid = Some (p\<lparr>device_patterns := dp ++ device_info\<rparr>))
   \<and> (dev_get stored k = PNone \<longrightarrow> field_anomaly stored device_info k a = [])"
proof -
  let ?s = "run env ops init_manager"
  obtain p s1 where ens: "ensure_profile env clk uid ?s = (p, s1)"
    by (cases "ensure_profile env clk uid ?s")
  have dk: "device_keys ?s"
    by (rule run_device_keys [OF init_device_keys init_well_formed])
  note k = device_keys_profile [OF dk ens]
  note ex = device_exact [OF ens k, of device_info]
  have p: "fst (ensure_profile env clk uid ?s) = p"
    by (simp add: ens)
  have 1: "dev_anomalies_detected (snd (process_device_data env clk uid device_info ?s)) =
         field_anomaly (device_patterns p) device_info ''screen_resolution''
           (DeviceAnomaly ''device'' ''Screen resolution changed'' ''medium'')
         @ field_anomaly (device_patterns p) device_info ''browser_info''
           (DeviceAnomaly ''device'' ''Browser information changed'' ''low'')
         @ field_anomaly (device_patterns p) device_info ''ip_address''
           (DeviceAnomaly ''device'' ''IP address changed - potential location change'' ''high'')"
    by (simp only: ex snd_conv device_results.simps)
  have 2: "dev_error (snd (process_device_data env clk uid device_info ?s)) = None"
    by (simp only: ex snd_conv device_results.simps)
  have 3: "user_profiles (fst (process_device_data env clk uid device_info ?s)) uid
      = Some (p\<lparr>device_patterns := device_patterns p ++ device_info\<rparr>)"
    by (simp only: ex fst_conv) (simp add: set_profile_def)
  have 4: "dev_get stored k = PNone \<longrightarrow> field_anomaly stored device_info k a = []"
    by (simp add: field_anomaly_def)
  show ?thesis
    unfolding Let_def p using 1 2 3 4 by blast
qed

theorem device_anomalies_per_field_witness:
  "dev_anomalies_detected (snd (process_device_data example_backend example_clock ''alice''
       [''ip_address'' \<mapsto> PStr ''5.6.7.8'']
       (run example_backend
          [(example_clock, Device ''alice'' [''ip_address'' \<mapsto> PStr ''1.2.3.4''])]
          init_manager)))
     = [DeviceAnomaly ''device'' ''IP address changed - potential location change'' ''high''] \<and>
   dev_get [''screen_resolution'' \<mapsto> PNone] ''screen_resolution'' = PNone \<and>
   field_anomaly [''screen_resolution'' \<mapsto> PNone]
     [''screen_resolution'' \<mapsto> PStr ''1920x1080''] ''screen_resolution''
     (DeviceAnomaly ''device'' ''Screen resolution changed'' ''medium'') = []"
proof -
  let ?ops = "[(example_clock, Device ''alice'' [''ip_address'' \<mapsto> PStr ''1.2.3.4''])]"
  let ?dp = "device_patterns (fst (ensure_profile example_backend example_clock ''alice''
      (run example_backend ?ops init_manager)))"
  let ?di = "[''ip_address'' \<mapsto> PStr ''5.6.7.8'']"
  have a: "field_anomaly ?dp ?di ''screen_resolution''
      (DeviceAnomaly ''device'' ''Screen resolution changed'' ''medium'') = []"
    by code_simp
  have b: "field_anomaly ?dp ?di ''browser_info''
      (DeviceAnomaly ''device'' ''Browser information changed'' ''low'') = []"
    by code_simp
  have c: "field_anomaly ?dp ?di ''ip_address''
      (DeviceAnomaly ''device'' ''IP address changed - potential location change'' ''high'')
      = [DeviceAnomaly ''device'' ''IP address changed - potential location change'' ''high'']"
    by code_simp
  have d: "dev_get [''screen_resolution'' \<mapsto> PNone] ''screen_resolution'' = PNone"
    by (simp add: dev_get_def)
  from device_anomalies_per_field [where env = example_backend and ops = ?ops
      and clk = example_clock and uid = "''alice''" and device_info = ?di
      and stored = "[''screen_resolution'' \<mapsto> PNone]" and k = "''screen_resolution''"]
    a b c d
  show ?thesis
    unfolding Let_def by (simp add: field_anomaly_def)
qed

text \<open>
  C8 as stated fails twice: a stored empty string is not null and differs from the
  snapshot's address, yet no entry is emitted; and a field the snapshot omits is reported
  as changed while its stored value stays.
\<close>

theorem device_anomaly_counterexample:
  "stored_device (device_manager [''ip_address'' \<mapsto> PStr []]) ''alice'' ''ip_address''
     = Some (PStr []) \<and>
   dev_anomalies_detected (snd (process_device_data example_backend example_clock ''alice''
       [''ip_address'' \<mapsto> PStr ''5.6.7.8''] (device_manager [''ip_address'' \<mapsto> PStr []])))
     = [] \<and>
   stored_device (device_manager [''ip_address'' \<mapsto> PStr ''1.2.3.4'']) ''alice'' ''ip_address''
     = Some (PStr ''1.2.3.4'') \<and>
   dev_anomalies_detected (snd (process_device_data example_backend example_clock ''alice''
       Map.empty (device_manager [''ip_address'' \<mapsto> PStr ''1.2.3.4''])))
     = [DeviceAnomaly ''device'' ''IP address changed - potential location change'' ''high''] \<and>
   stored_device (fst (process_device_data example_backend example_clock ''alice''
       Map.empty (device_manager [''ip_address'' \<mapsto> PStr ''1.2.3.4'']))) ''alice'' ''ip_address''
     = Some (PStr ''1.2.3.4'')"
  by code_simp

text \<open>
  C10, as amended. In every state reached from a fresh manager: \<^verbatim>\<open>process_mouse_data\<close>
  leaves every event of the caller's batch with \<^verbatim>\<open>type\<close> overwritten by \<^verbatim>\<open>mouse\<close> and
  \<^verbatim>\<open>timestamp\<close> by a clock reading, and buffers these events; \<^verbatim>\<open>process_keystroke_data\<close>
  does the same with \<^verbatim>\<open>keystroke\<close> when its feature extraction does not raise, and
  leaves the batch untouched and unbuffered when it raises. Hence every buffered event is
  tagged \<^verbatim>\<open>keystroke\<close> or \<^verbatim>\<open>mouse\<close>, and the re-extraction of \<^verbatim>\<open>get_security_score\<close> over
  either group of the buffer yields the all-zero feature vector.
\<close>

theorem events_tagged_in_place:
  "(let s = run env ops init_manager;
        ks = filter (\<lambda>e. e ''type'' = Some (PStr ''keystroke'')) (buffer_of s u);
        ms = filter (\<lambda>e. e ''type'' = Some (PStr ''mouse'')) (buffer_of s u)
    in snd (snd (process_mouse_data env clk uid evs s)) = tag_events ''mouse'' clk evs \<and>
       snd (snd (process_keystroke_data env clk uid evs s)) =
         (case extract_keystroke_features clk evs of
            Inl e \<Rightarrow> evs
          | Inr f \<Rightarrow> tag_events ''keystroke'' clk evs) \<and>
       buffer_of (fst (process_mouse_data env clk uid evs s)) uid =
         last_n 50 (buffer_of s uid @ tag_events ''mouse'' clk evs) \<and>
       buffer_of (fst (process_keystroke_data env clk uid evs s)) uid =
         last_n 50 (buffer_of s uid @
           (case extract_keystroke_features clk evs of
              Inl e \<Rightarrow> []
            | Inr f \<Rightarrow> tag_events ''keystroke'' clk evs)) \<and>
       (\<forall>e \<in> set (buffer_of s u).
          e ''type'' = Some (PStr ''keystroke'') \<or> e ''type'' = Some (PStr ''mouse'')) \<and>
       (ks \<noteq> [] \<longrightarrow> extract_keystroke_features clk ks = Inr (Some zero_keystroke_features)) \<and>
       (ms \<noteq> [] \<longrightarrow> extract_mouse_features ms = Some zero_mouse_features))
   \<and> (\<forall>e \<in> set (tag_events tag clk evs).
          e ''type'' = Some (PStr tag) \<and> (\<exists>k. e ''timestamp'' = Some (PStr (now_iso clk k))))"
proof -
  let ?s = "run env ops init_manager"
  let ?ks = "filter (\<lambda>e. e ''type'' = Some (PStr ''keystroke'')) (buffer_of ?s u)"
  let ?ms = "filter (\<lambda>e. e ''type'' = Some (PStr ''mouse'')) (buffer_of ?s u)"
  have wf: "well_formed ?s"
    by (rule run_well_formed [OF init_well_formed])
  have t: "tagged ?s"
    by (rule run_tagged [OF init_tagged init_well_formed])
  have 1: "snd (snd (process_mouse_data env clk uid evs ?s)) = tag_events ''mouse'' clk evs"
    by (rule mouse_returned_events [OF wf])
  have 2: "snd (snd (process_keystroke_data env clk uid evs ?s)) =
         (case extract_keystroke_features clk evs of
            Inl e \<Rightarrow> evs
          | Inr f \<Rightarrow> tag_events ''keystroke'' clk evs)"
    by (rule keystroke_returned_events [OF wf])
  have 3: "buffer_of (fst (process_mouse_data env clk uid evs ?s)) uid =
         last_n 50 (buffer_of ?s uid @ tag_events ''mouse'' clk evs)"
    using step_effect(1) [OF wf, of env clk "Mouse uid evs" uid]
    by (simp add: buffer_size_def)
  have 4: "buffer_of (fst (process_keystroke_data env clk uid evs ?s)) uid =
         last_n 50 (buffer_of ?s uid @
           (case extract_keystroke_features clk evs of
              Inl e \<Rightarrow> []
            | Inr f \<Rightarrow> tag_events ''keystroke'' clk evs))"
    using step_effect(1) [OF wf, of env clk "Keystroke uid evs" uid]
    by (simp add: buffer_size_def)
  have 5: "\<forall>e \<in> set (buffer_of ?s u).
          e ''type'' = Some (PStr ''keystroke'') \<or> e ''type'' = Some (PStr ''mouse'')"
    using t unfolding tagged_def by (rule spec)
  have 6: "?ks \<noteq> [] \<longrightarrow> extract_keystroke_features clk ?ks = Inr (Some zero_keystroke_features)"
  proof
    assume "?ks \<noteq> []"
    then show "extract_keystroke_features clk ?ks = Inr (Some zero_keystroke_features)"
      by (intro extract_keystroke_no_keydown) simp_all
  qed
  have 7: "?ms \<noteq> [] \<longrightarrow> extract_mouse_features ?ms = Some zero_mouse_features"
  proof
    assume "?ms \<noteq> []"
    then show "extract_mouse_features ?ms = Some zero_mouse_features"
      by (intro extract_mouse_no_click) simp_all
  qed
  have 8: "\<forall>e \<in> set (tag_events tag clk evs).
          e ''type'' = Some (PStr tag) \<and> (\<exists>k. e ''timestamp'' = Some (PStr (now_iso clk k)))"
    using tag_events_elem by blast
  show ?thesis
    unfolding Let_def using 1 2 3 4 5 6 7 8 by blast
qed

theorem events_tagged_in_place_witness:
  "map (\<lambda>e. e ''type'') (buffer_of typed_manager ''alice'')
     = [Some (PStr ''keystroke''), Some (PStr ''mouse'')] \<and>
   extract_keystroke_features example_clock
     (filter (\<lambda>e. e ''type'' = Some (PStr ''keystroke'')) (buffer_of typed_manager ''alice''))
     = Inr (Some zero_keystroke_features) \<and>
   extract_mouse_features
     (filter (\<lambda>e. e ''type'' = Some (PStr ''mouse'')) (buffer_of typed_manager ''alice''))
     = Some zero_mouse_features \<and>
   snd (snd (process_keystroke_data example_backend example_clock ''alice''
               [keydown 1, keydown 3] typed_manager))
     = tag_events ''keystroke'' example_clock [keydown 1, keydown 3] \<and>
   map (\<lambda>e. e ''type'') (tag_events ''keystroke'' example_clock [keydown 1, keydown 3])
     = [Some (PStr ''keystroke''), Some (PStr ''keystroke'')]"
proof -
  let ?ops = "[(example_clock, Keystroke ''alice'' [keydown 1]),
               (example_clock, Mouse ''alice'' [click])]"
  have s: "run example_backend ?ops init_manager = typed_manager"
    by (simp add: typed_manager_def)
  have a: "map (\<lambda>e. e ''type'') (buffer_of typed_manager ''alice'')
     = [Some (PStr ''keystroke''), Some (PStr ''mouse'')]"
    by code_simp
  have b: "filter (\<lambda>e. e ''type'' = Some (PStr ''keystroke'')) (buffer_of typed_manager ''alice'')
     \<noteq> []"
    by code_simp
  have c: "filter (\<lambda>e. e ''type'' = Some (PStr ''mouse'')) (buffer_of typed_manager ''alice'')
     \<noteq> []"
    by code_simp
  have d: "extract_keystroke_features example_clock [keydown 1, keydown 3]
     = Inr (Some \<lparr>typing_speed = 1, kf_intervals = [2], error_count = 0, special_key_usage = 0\<rparr>)"
    by (simp add: extract_keystroke_features_def keydown_times_def keydown_def enumerate_eq_zip
        Let_def)
  have e: "map (\<lambda>e. e ''type'') (tag_events ''keystroke'' example_clock [keydown 1, keydown 3])
     = [Some (PStr ''keystroke''), Some (PStr ''keystroke'')]"
    by code_simp
  from events_tagged_in_place [where env = example_backend and ops = ?ops
      and clk = example_clock and uid = "''alice''" and u = "''alice''"
      and evs = "[keydown 1, keydown 3]" and tag = "''keystroke''"]
  show ?thesis
    unfolding Let_def s using a b c d e by simp
qed

text \<open>
  C10 as stated fails: a keystroke batch of two key presses with the same timestamp makes
  the feature extraction divide by zero; the call reports the error, leaves both events
  with their \<^verbatim>\<open>keydown\<close> type and numeric timestamp, and buffers nothing.
\<close>

theorem untagged_batch_counterexample:
  "res_error (fst (snd (process_keystroke_data example_backend example_clock ''alice''
      [keydown 1, keydown 1] init_manager))) = Some ZeroDivisionError \<and>
   map (\<lambda>e. (e ''type'', e ''timestamp''))
     (snd (snd (process_keystroke_data example_backend example_clock ''alice''
        [keydown 1, keydown 1] init_manager)))
     = [(Some (PStr ''keydown''), Some (PNum 1)), (Some (PStr ''keydown''), Some (PNum 1))] \<and>
   length (buffer_of (fst (process_keystroke_data example_backend example_clock ''alice''
      [keydown 1, keydown 1] init_manager)) ''alice'') = 0"
  by code_simp

text \<open>
  C2, as amended. In every state reached from a fresh manager, a keystroke call leaves its
  user's flag true exactly when it was true before or the call's sufficiency check
  succeeds (the extraction does not raise and the updated profile has at least 50
  intervals or at least 20 click entries). In the call that flips the flag, training has
  run: the scaler is fitted on the profile's training rows if the backend and numpy are
  available and there is at least one row; otherwise scaler and model stay as created and
  the keystroke scorer answers 0.0 (0.1 without the backend). While the flag is false,
  model and scaler are as created.
\<close>

theorem baseline_transition:
  "(let s = run env ops init_manager;
        p = fst (ensure_profile env clk uid s);
        s' = fst (process_keystroke_data env clk uid evs s);
        p' = keystroke_profile_after clk evs p
    in user_profiles s' uid = Some p' \<and>
       established s' uid = (established s uid \<or> sufficient_after clk evs p) \<and>
       (\<not> established s uid \<and> sufficient_after clk evs p \<longrightarrow>
          scalers s' uid = Some (fitted_by env p') \<and>
          (fitted_by env p' = fresh_estimator env \<longrightarrow>
             anomaly_models s' uid = Some (fresh_estimator env) \<and>
             detect_keystroke_anomalies env s' uid kf
               = (if SKLEARN_AVAILABLE env then 0 else 0.1))) \<and>
       (\<not> established s' uid \<longrightarrow>
          anomaly_models s' uid = Some (fresh_estimator env) \<and>
          scalers s' uid = Some (fresh_estimator env)))
   \<and> check_baseline_sufficient q =
        (length (keystroke_intervals (keystroke_pats q)) \<ge> 50
         \<or> length (click_patterns (mouse_pats q)) \<ge> 20)"
proof -
  let ?s = "run env ops init_manager"
  let ?s' = "fst (process_keystroke_data env clk uid evs ?s)"
  obtain p s1 where ens: "ensure_profile env clk uid ?s = (p, s1)"
    by (cases "ensure_profile env clk uid ?s")
  let ?p' = "keystroke_profile_after clk evs p"
  have wf: "well_formed ?s"
    by (rule run_well_formed [OF init_well_formed])
  have inv: "untrained_before_baseline env ?s"
    by (rule run_untrained [OF init_untrained init_well_formed])
  note e = ensure_profile_wf [OF ens wf]
  note f = ensure_profile_untrained [OF ens inv]
  have lb: "length (buffer_of ?s uid) \<le> buffer_size"
    using well_formedD(2) [OF wf, of uid] .
  have p: "fst (ensure_profile env clk uid ?s) = p"
    by (simp add: ens)
  have est: "established ?s uid = baseline_established p"
    by (rule ensure_profile_established [OF ens])
  have 1: "user_profiles ?s' uid = Some ?p'"
    by (rule keystroke_result(1) [OF ens e(4) e(5) lb])
  have 2: "established ?s' uid = (established ?s uid \<or> sufficient_after clk evs p)"
    by (simp add: established_def [of ?s'] 1 est keystroke_profile_after_flag)
  have 3: "\<not> established ?s uid \<and> sufficient_after clk evs p \<longrightarrow>
          scalers ?s' uid = Some (fitted_by env ?p') \<and>
          (fitted_by env ?p' = fresh_estimator env \<longrightarrow>
             anomaly_models ?s' uid = Some (fresh_estimator env) \<and>
             detect_keystroke_anomalies env ?s' uid kf
               = (if SKLEARN_AVAILABLE env then 0 else 0.1))"
  proof
    assume a: "\<not> established ?s uid \<and> sufficient_after clk evs p"
    then have nb: "\<not> baseline_established p" and suff: "sufficient_after clk evs p"
      by (simp_all add: est)
    note t = keystroke_models_trained [OF ens e(5) nb suff f(1) f(2) [OF nb]]
    have m: "anomaly_models ?s' uid = Some (fresh_estimator env)"
      using f(1) by (simp add: t(1))
    have "detect_keystroke_anomalies env ?s' uid kf
               = (if SKLEARN_AVAILABLE env then 0 else 0.1)"
      by (simp add: detect_keystroke_anomalies_def dict_get_def m fresh_estimator_def
          split: option.splits estimator.splits)
    with t(2) m show "scalers ?s' uid = Some (fitted_by env ?p') \<and>
          (fitted_by env ?p' = fresh_estimator env \<longrightarrow>
             anomaly_models ?s' uid = Some (fresh_estimator env) \<and>
             detect_keystroke_anomalies env ?s' uid kf
               = (if SKLEARN_AVAILABLE env then 0 else 0.1))"
      by simp
  qed
  have 4: "\<not> established ?s' uid \<longrightarrow>
          anomaly_models ?s' uid = Some (fresh_estimator env) \<and>
          scalers ?s' uid = Some (fresh_estimator env)"
  proof
    assume "\<not> established ?s' uid"
    then have nb: "\<not> baseline_established p" and ns: "\<not> sufficient_after clk evs p"
      by (simp_all add: 2 est)
    from ns have "baseline_established p \<or> \<not> sufficient_after clk evs p" by simp
    note k = keystroke_models_kept [OF ens this]
    from f(1) f(2) [OF nb]
    show "anomaly_models ?s' uid = Some (fresh_estimator env) \<and>
          scalers ?s' uid = Some (fresh_estimator env)"
      by (simp add: k)
  qed
  have 5: "check_baseline_sufficient q =
        (length (keystroke_intervals (keystroke_pats q)) \<ge> 50
         \<or> length (click_patterns (mouse_pats q)) \<ge> 20)"
    by (simp add: check_baseline_sufficient_def)
  show ?thesis
    unfolding Let_def p using 1 2 3 4 5 by blast
qed

theorem baseline_transition_witness:
  "\<not> established init_manager ''alice'' \<and>
   sufficient_after example_clock typing_batch
     (fst (ensure_profile example_backend example_clock ''alice'' init_manager)) \<and>
   established (fst (process_keystroke_data example_backend example_clock ''alice''
      typing_batch init_manager)) ''alice'' \<and>
   scalers (fst (process_keystroke_data example_backend example_clock ''alice''
      typing_batch init_manager)) ''alice'' = Some (Some (Fitted [[51, 50, 0, 0]])) \<and>
   \<not> established (fst (process_keystroke_data example_backend example_clock ''alice''
      [keydown 1] init_manager)) ''alice'' \<and>
   anomaly_models (fst (process_keystroke_data example_backend example_clock ''alice''
      [keydown 1] init_manager)) ''alice'' = Some (Some Unfitted) \<and>
   scalers (fst (process_keystroke_data example_backend example_clock ''alice''
      [keydown 1] init_manager)) ''alice'' = Some (Some Unfitted)"
proof -
  have s: "run example_backend [] init_manager = init_manager"
    by (simp add: run_def)
  have a: "\<not> established init_manager ''alice''"
    by (simp add: established_def init_manager_def)
  have b: "sufficient_after example_clock typing_batch
     (fst (ensure_profile example_backend example_clock ''alice'' init_manager))"
    by code_simp
  have c: "fitted_by example_backend (keystroke_profile_after example_clock typing_batch
     (fst (ensure_profile example_backend example_clock ''alice'' init_manager)))
   = Some (Fitted [[51, 50, 0, 0]])"
    by code_simp
  have d: "\<not> sufficient_after example_clock [keydown 1]
     (fst (ensure_profile example_backend example_clock ''alice'' init_manager))"
    by code_simp
  have f: "fresh_estimator example_backend = Some Unfitted"
    by (simp add: fresh_estimator_def example_backend_def)
  from baseline_transition [where env = example_backend and ops = "[]" and clk = example_clock
      and uid = "''alice''" and evs = typing_batch]
    baseline_transition [where env = example_backend and ops = "[]" and clk = example_clock
      and uid = "''alice''" and evs = "[keydown 1]"]
  show ?thesis
    unfolding Let_def s using a b c d f by simp
qed

text \<open>
  C2 as stated fails: after twenty mouse batches with a click each, a keystroke batch of
  one key press passes the sufficiency check and flips the flag, but the profile has no
  positive average speed, so there is no training row and neither the scaler nor the model
  is fitted; the user's keystroke events are scored against them (score 0.0).
\<close>

theorem untrained_baseline_counterexample:
  "\<not> established clicking_manager ''alice'' \<and>
   established clicked_then_typed ''alice'' \<and>
   anomaly_models clicked_then_typed ''alice'' = Some (Some Unfitted) \<and>
   scalers clicked_then_typed ''alice'' = Some (Some Unfitted) \<and>
   detect_keystroke_anomalies example_backend clicked_then_typed ''alice''
     (Some \<lparr>typing_speed = 2, kf_intervals = [1], error_count = 0, special_key_usage = 0\<rparr>) = 0"
  by code_simp

text \<open>
  C3 at its failing input: after twenty \<^verbatim>\<open>process_mouse_data\<close> calls with one click each
  on a fresh manager, the profile has 20 click entries and passes
  \<^verbatim>\<open>_check_baseline_sufficient\<close>, yet the baseline is not established and nothing is
  trained.
\<close>

theorem mouse_never_establishes:
  "(case user_profiles clicking_manager ''alice'' of
      None \<Rightarrow> False
    | Some p \<Rightarrow> length (click_patterns (mouse_pats p)) = 20 \<and> check_baseline_sufficient p
                \<and> \<not> baseline_established p) \<and>
   scalers clicking_manager ''alice'' = Some (Some Unfitted)"
  by code_simp


end
